theory Spec2Isabelle
  imports Complex_Main
begin

section \<open>Errors raised by the Python sources\<close>

text \<open>
  Every \<^verbatim>\<open>raise\<close> of the sources, and every failure of a Python primitive that
  the modelled paths can reach, is a value of this type.
  \<^item> \<open>AttributeError\<close>: attribute access on \<^verbatim>\<open>None\<close> (\<^verbatim>\<open>wavelet.shape\<close> in \<^verbatim>\<open>src_rec\<close>);
  \<^item> \<open>BareException\<close>: the plain \<^verbatim>\<open>raise Exception\<close> of \<^verbatim>\<open>geom_expr\<close> and the
    \<^verbatim>\<open>raise Exception("...")\<close> of \<^verbatim>\<open>vec\<close> and \<^verbatim>\<open>tensor\<close> (the specification
    calls this kind InvalidInput);
  \<^item> \<open>TypeError\<close>: the \<^verbatim>\<open>raise TypeError\<close> of \<^verbatim>\<open>vec\<close>, \<^verbatim>\<open>tensor\<close>, and the refusal
    of a sparse point set without a number of time samples;
  \<^item> \<open>ValueError\<close>: the array library's refusal to store an array of the wrong shape
    (\<^verbatim>\<open>src.data[:] = wavelet[:]\<close>), and the refusal of a sparse point set of zero time
    samples;
  \<^item> \<open>IndexError\<close>: an index outside a sequence or matrix;
  \<^item> \<open>IndexException\<close>: the computer-algebra library's refusal of an indexed access
    of the wrong rank;
  \<^item> \<open>ZeroDivisionError\<close>: a division by a zero integer;
  \<^item> \<open>NonSquareMatrixError\<close>: the computer-algebra library's refusal of \<^verbatim>\<open>.trace()\<close>
    on a matrix that is not square.
\<close>

datatype error =
  AttributeError | BareException | TypeError | ValueError | IndexError | IndexException
  | ZeroDivisionError | NonSquareMatrixError

section \<open>utils.py: compute_optalpha\<close>

text \<open>
  \<^verbatim>\<open>
  def compute_optalpha(norm_r, norm_Fty, epsilon, comp_alpha=True):
      if comp_alpha:
          if norm_r > epsilon and norm_Fty > 0:
              return norm_r * (norm_r - epsilon) / norm_Fty
          else:
              return 0
      else:
          return 1
  \<close>
  Python numbers are modelled as reals; \<^verbatim>\<open>/\<close> is true division.
\<close>

definition compute_optalpha :: "real \<Rightarrow> real \<Rightarrow> real \<Rightarrow> bool \<Rightarrow> real" where
  "compute_optalpha norm_r norm_Fty epsilon comp_alpha =
     (if comp_alpha then
        (if norm_r > epsilon \<and> norm_Fty > 0 then norm_r * (norm_r - epsilon) / norm_Fty
         else 0)
      else 1)"

section \<open>The physical model\<close>

text \<open>
  The physical model is an object of the external framework; the sources read these
  attributes of it. \<open>dim_m\<close> stands for both \<^verbatim>\<open>model.dim\<close> and \<^verbatim>\<open>model.grid.dim\<close>
  (the number of spatial axes of the grid). The fields \<open>vp\<close>, \<open>vs\<close>, \<open>irho\<close>, \<open>lam\<close>,
  \<open>mu\<close> are symbolic in the source; here they are their values at a point.
\<close>

record model =
  dim_m :: nat
  is_elastic :: bool
  is_tti :: bool
  vp :: real
  vs :: real
  irho :: real
  lam :: real
  mu :: real
  critical_dt :: real
  spacing :: "real list"
  padsizes :: "(real \<times> real) list"

text \<open>
  A homogeneous model used for the concrete evaluations below: \<open>d\<close> axes of unit spacing
  without absorbing layer, \<open>vp = 2\<close>, \<open>vs = 1\<close>, density 1 (so \<open>lam = 2\<close>, \<open>mu = 1\<close>).
\<close>

definition example_model :: "nat \<Rightarrow> bool \<Rightarrow> bool \<Rightarrow> model" where
  "example_model d el tti =
     \<lparr>dim_m = d, is_elastic = el, is_tti = tti, vp = 2, vs = 1, irho = 1, lam = 2, mu = 1,
      critical_dt = 1,
      spacing = replicate d 1, padsizes = replicate d (0, 0)\<rparr>"

section \<open>utils.py: C_Matrix, the vp-vs-rho stiffness tensor\<close>

text \<open>
  An entry of the symbolic matrix built by \<^verbatim>\<open>_matrix_init\<close>: the symbol
  \<^verbatim>\<open>'C%s%s' % (ii, jj)\<close>, kept as the pair of its indices, or a number.
\<close>

datatype entry = Sym nat nat | Num real

text \<open>
  \<^verbatim>\<open>
  def cij(i, j):
      ii, jj = min(i, j), max(i, j)
      if (ii == jj or (ii <= dim and jj <= dim)):
          return symbols('C%s%s' % (ii, jj))
      return 0
  d = dim*2 + dim-2
  Cij = [[cij(i, j) for i in range(1, d)] for j in range(1, d)]
  \<close>
\<close>

definition cij :: "nat \<Rightarrow> nat \<Rightarrow> nat \<Rightarrow> entry" where
  "cij dm i j =
     (let ii = min i j; jj = max i j
      in if ii = jj \<or> (ii \<le> dm \<and> jj \<le> dm) then Sym ii jj else Num 0)"

definition matrix_init :: "nat \<Rightarrow> entry list list" where
  "matrix_init dm =
     (let d = dm * 2 + dm - 2
      in map (\<lambda>j. map (\<lambda>i. cij dm i j) [1..<d]) [1..<d])"

text \<open>
  \<^verbatim>\<open>Matrix.subs(dict)\<close>: every symbol that is a key of the dictionary is replaced by
  its value (the values hold no \<^verbatim>\<open>C\<close> symbol); any other entry stays.
\<close>

fun subs_entry :: "(nat \<times> nat \<rightharpoonup> real) \<Rightarrow> entry \<Rightarrow> entry" where
  "subs_entry s (Num x) = Num x"
| "subs_entry s (Sym i j) = (case s (i, j) of Some v \<Rightarrow> Num v | None \<Rightarrow> Sym i j)"

definition subs :: "(nat \<times> nat \<rightharpoonup> real) \<Rightarrow> entry list list \<Rightarrow> entry list list" where
  "subs s M = map (map (subs_entry s)) M"

text \<open>The substitution dictionaries of \<^verbatim>\<open>C_vp_vs_rho\<close> (\<^verbatim>\<open>rho = 1/model.irho\<close>).\<close>

definition C_vp_vs_rho_subs3D :: "model \<Rightarrow> (nat \<times> nat \<rightharpoonup> real)" where
  "C_vp_vs_rho_subs3D m =
     (let vp = vp m; vs = vs m; rho = 1 / irho m
      in [(1, 1) \<mapsto> rho * vp * vp,
          (2, 2) \<mapsto> rho * vp * vp,
          (3, 3) \<mapsto> rho * vp * vp,
          (4, 4) \<mapsto> rho * vs * vs,
          (5, 5) \<mapsto> rho * vs * vs,
          (6, 6) \<mapsto> rho * vs * vs,
          (1, 2) \<mapsto> rho * vp * vp - 2 * rho * vs * vs,
          (1, 3) \<mapsto> rho * vp * vp - 2 * rho * vs * vs,
          (2, 3) \<mapsto> rho * vp * vp - 2 * rho * vs * vs])"

definition C_vp_vs_rho_subs2D :: "model \<Rightarrow> (nat \<times> nat \<rightharpoonup> real)" where
  "C_vp_vs_rho_subs2D m =
     (let vp = vp m; vs = vs m; rho = 1 / irho m
      in [(1, 1) \<mapsto> rho * vp * vp,
          (2, 2) \<mapsto> rho * vp * vp,
          (3, 3) \<mapsto> rho * vs * vs,
          (1, 2) \<mapsto> rho * vp * vp - 2 * rho * vs * vs])"

text \<open>The substitution dictionaries of \<^verbatim>\<open>_inverse_C_vp_vs\<close>.\<close>

definition inverse_C_vp_vs_subs3D :: "model \<Rightarrow> (nat \<times> nat \<rightharpoonup> real)" where
  "inverse_C_vp_vs_subs3D m =
     (let vp = vp m; vs = vs m; rho = 1 / irho m
      in [(1, 1) \<mapsto> (vp * vp - vs * vs) / ((rho * vs * vs) * (3 * vp * vp - 4 * vs * vs)),
          (2, 2) \<mapsto> (vp * vp - vs * vs) / ((rho * vs * vs) * (3 * vp * vp - 4 * vs * vs)),
          (3, 3) \<mapsto> (vp * vp - vs * vs) / ((rho * vs * vs) * (3 * vp * vp - 4 * vs * vs)),
          (4, 4) \<mapsto> 1 / (rho * vs * vs),
          (5, 5) \<mapsto> 1 / (rho * vs * vs),
          (6, 6) \<mapsto> 1 / (rho * vs * vs),
          (1, 2) \<mapsto> (vp * vp - vs * vs) / ((rho * vs * vs) * (6 * vp * vp - 8 * vs * vs)),
          (1, 3) \<mapsto> (vp * vp - vs * vs) / ((rho * vs * vs) * (6 * vp * vp - 8 * vs * vs)),
          (2, 3) \<mapsto> (vp * vp - vs * vs) / ((rho * vs * vs) * (6 * vp * vp - 8 * vs * vs))])"

definition inverse_C_vp_vs_subs2D :: "model \<Rightarrow> (nat \<times> nat \<rightharpoonup> real)" where
  "inverse_C_vp_vs_subs2D m =
     (let vp = vp m; vs = vs m; rho = 1 / irho m
      in [(1, 1) \<mapsto> (vp * vp - vs * vs) / ((rho * vs * vs) * (3 * vp * vp - 4 * vs * vs)),
          (2, 2) \<mapsto> (vp * vp - vs * vs) / ((rho * vs * vs) * (3 * vp * vp - 4 * vs * vs)),
          (3, 3) \<mapsto> 1 / (rho * vs * vs),
          (1, 2) \<mapsto> (vp * vp - vs * vs) / ((rho * vs * vs) * (6 * vp * vp - 8 * vs * vs))])"

definition inverse_C_vp_vs :: "model \<Rightarrow> entry list list" where
  "inverse_C_vp_vs m =
     subs (if dim_m m = 3 then inverse_C_vp_vs_subs3D m else inverse_C_vp_vs_subs2D m)
       (matrix_init (dim_m m))"

text \<open>
  \<^verbatim>\<open>_generate_Dvp\<close>, \<^verbatim>\<open>_generate_Dvs\<close>, \<^verbatim>\<open>_generate_Drho\<close>: the derivative
  matrices attached to the stiffness matrix.
\<close>

definition generate_Dvp :: "model \<Rightarrow> entry list list" where
  "generate_Dvp m =
     (let d_vp = (\<lambda>i j. let ii = min i j; jj = max i j
                          in if ii \<le> dim_m m \<and> jj \<le> dim_m m
                             then Num (2 * (1 / irho m) * vp m) else Num 0);
          d = dim_m m * 2 + dim_m m - 2
      in map (\<lambda>j. map (\<lambda>i. d_vp i j) [1..<d]) [1..<d])"

definition generate_Dvs :: "model \<Rightarrow> entry list list" where
  "generate_Dvs m =
     (let rho = 1 / irho m; vs = vs m;
          subs3D = [(1, 1) \<mapsto> 0, (2, 2) \<mapsto> 0, (3, 3) \<mapsto> 0,
                    (4, 4) \<mapsto> 2 * rho * vs, (5, 5) \<mapsto> 2 * rho * vs, (6, 6) \<mapsto> 2 * rho * vs,
                    (1, 2) \<mapsto> - 4 * rho * vs, (1, 3) \<mapsto> - 4 * rho * vs,
                    (2, 3) \<mapsto> - 4 * rho * vs];
          subs2D = [(1, 1) \<mapsto> 0, (2, 2) \<mapsto> 0, (3, 3) \<mapsto> 2 * rho * vs,
                    (1, 2) \<mapsto> - 4 * rho * vs]
      in subs (if dim_m m = 3 then subs3D else subs2D) (matrix_init (dim_m m)))"

definition generate_Drho :: "model \<Rightarrow> entry list list" where
  "generate_Drho m =
     (let vp = vp m; vs = vs m;
          subs3D = [(1, 1) \<mapsto> vp * vp, (2, 2) \<mapsto> vp * vp, (3, 3) \<mapsto> vp * vp,
                    (4, 4) \<mapsto> vs * vs, (5, 5) \<mapsto> vs * vs, (6, 6) \<mapsto> vs * vs,
                    (1, 2) \<mapsto> vp * vp - 2 * vs * vs, (1, 3) \<mapsto> vp * vp - 2 * vs * vs,
                    (2, 3) \<mapsto> vp * vp - 2 * vs * vs];
          subs2D = [(1, 1) \<mapsto> vp * vp, (2, 2) \<mapsto> vp * vp, (3, 3) \<mapsto> vs * vs,
                    (1, 2) \<mapsto> vp * vp - 2 * vs * vs]
      in subs (if dim_m m = 3 then subs3D else subs2D) (matrix_init (dim_m m)))"

text \<open>
  The matrix returned by \<^verbatim>\<open>C_vp_vs_rho\<close>, with the attributes the source attaches to it
  (\<^verbatim>\<open>M.dvp\<close>, \<^verbatim>\<open>M.dvs\<close>, \<^verbatim>\<open>M.drho\<close>, \<^verbatim>\<open>M.inv\<close>).
\<close>

record stiffness =
  mat :: "entry list list"
  dvp :: "entry list list"
  dvs :: "entry list list"
  drho :: "entry list list"
  inv_m :: "entry list list"

definition C_vp_vs_rho :: "model \<Rightarrow> stiffness" where
  "C_vp_vs_rho m =
     \<lparr>mat = subs (if dim_m m = 3 then C_vp_vs_rho_subs3D m else C_vp_vs_rho_subs2D m)
              (matrix_init (dim_m m)),
      dvp = generate_Dvp m,
      dvs = generate_Dvs m,
      drho = generate_Drho m,
      inv_m = inverse_C_vp_vs m\<rparr>"

text \<open>
  The matrix product \<^verbatim>\<open>A * B\<close> of the computer-algebra library, on matrices whose
  symbols have all been substituted: \<open>numeric\<close> reads such a matrix (\<open>None\<close> when a
  symbol is left), \<open>mat_mul\<close> multiplies rows by columns.
\<close>

fun numeric_row :: "entry list \<Rightarrow> real list option" where
  "numeric_row [] = Some []"
| "numeric_row (Num x # r) = map_option ((#) x) (numeric_row r)"
| "numeric_row (Sym i j # r) = None"

fun numeric :: "entry list list \<Rightarrow> real list list option" where
  "numeric [] = Some []"
| "numeric (r # M) =
     (case numeric_row r of
        None \<Rightarrow> None
      | Some r' \<Rightarrow> map_option ((#) r') (numeric M))"

definition mat_mul :: "real list list \<Rightarrow> real list list \<Rightarrow> real list list" where
  "mat_mul A B = map (\<lambda>row. map (\<lambda>col. sum_list (map2 (*) row col)) (transpose B)) A"

definition identity :: "nat \<Rightarrow> real list list" where
  "identity n = map (\<lambda>i. map (\<lambda>j. if i = j then 1 else 0) [0..<n]) [0..<n]"

text \<open>\<^verbatim>\<open>C_Matrix(model, "vp-vs-rho").inv * C_Matrix(model, "vp-vs-rho")\<close>.\<close>

definition inv_times_C :: "model \<Rightarrow> real list list option" where
  "inv_times_C m =
     (let C = C_vp_vs_rho m
      in case (numeric (inv_m C), numeric (mat C)) of
           (Some A, Some B) \<Rightarrow> Some (mat_mul A B)
         | _ \<Rightarrow> None)"

section \<open>utils.py: C_Matrix, the lam-mu stiffness tensor\<close>

text \<open>The substitution dictionaries of \<^verbatim>\<open>C_lambda_mu\<close> and of \<^verbatim>\<open>_inverse_C_lam\<close>.\<close>

definition C_lambda_mu_subs3D :: "model \<Rightarrow> (nat \<times> nat \<rightharpoonup> real)" where
  "C_lambda_mu_subs3D m =
     (let lmbda = lam m; mu = mu m
      in [(1, 1) \<mapsto> lmbda + (2 * mu),
          (2, 2) \<mapsto> lmbda + (2 * mu),
          (3, 3) \<mapsto> lmbda + (2 * mu),
          (4, 4) \<mapsto> mu,
          (5, 5) \<mapsto> mu,
          (6, 6) \<mapsto> mu,
          (1, 2) \<mapsto> lmbda,
          (1, 3) \<mapsto> lmbda,
          (2, 3) \<mapsto> lmbda])"

definition C_lambda_mu_subs2D :: "model \<Rightarrow> (nat \<times> nat \<rightharpoonup> real)" where
  "C_lambda_mu_subs2D m =
     (let lmbda = lam m; mu = mu m
      in [(1, 1) \<mapsto> lmbda + (2 * mu),
          (2, 2) \<mapsto> lmbda + (2 * mu),
          (3, 3) \<mapsto> mu,
          (1, 2) \<mapsto> lmbda])"

definition inverse_C_lam_subs3D :: "model \<Rightarrow> (nat \<times> nat \<rightharpoonup> real)" where
  "inverse_C_lam_subs3D m =
     (let lmbda = lam m; mu = mu m
      in [(1, 1) \<mapsto> (lmbda + mu) / (3 * lmbda * mu + 2 * mu * mu),
          (2, 2) \<mapsto> (lmbda + mu) / (3 * lmbda * mu + 2 * mu * mu),
          (3, 3) \<mapsto> (lmbda + mu) / (3 * lmbda * mu + 2 * mu * mu),
          (4, 4) \<mapsto> 1 / mu,
          (5, 5) \<mapsto> 1 / mu,
          (6, 6) \<mapsto> 1 / mu,
          (1, 2) \<mapsto> - lmbda / (6 * lmbda * mu + 4 * mu * mu),
          (1, 3) \<mapsto> - lmbda / (6 * lmbda * mu + 4 * mu * mu),
          (2, 3) \<mapsto> - lmbda / (6 * lmbda * mu + 4 * mu * mu)])"

definition inverse_C_lam_subs2D :: "model \<Rightarrow> (nat \<times> nat \<rightharpoonup> real)" where
  "inverse_C_lam_subs2D m =
     (let lmbda = lam m; mu = mu m
      in [(1, 1) \<mapsto> (lmbda + mu) / (3 * lmbda * mu + 2 * mu * mu),
          (2, 2) \<mapsto> (lmbda + mu) / (3 * lmbda * mu + 2 * mu * mu),
          (3, 3) \<mapsto> 1 / mu,
          (1, 2) \<mapsto> - lmbda / (6 * lmbda * mu + 4 * mu * mu)])"

definition inverse_C_lam :: "model \<Rightarrow> entry list list" where
  "inverse_C_lam m =
     subs (if dim_m m = 3 then inverse_C_lam_subs3D m else inverse_C_lam_subs2D m)
       (matrix_init (dim_m m))"

text \<open>\<^verbatim>\<open>_generate_Dlam\<close> and \<^verbatim>\<open>_generate_Dmu\<close>.\<close>

definition generate_Dlam :: "model \<Rightarrow> entry list list" where
  "generate_Dlam m =
     (let d_lam = (\<lambda>i j. let ii = min i j; jj = max i j
                           in if ii \<le> dim_m m \<and> jj \<le> dim_m m then Num 1 else Num 0);
          d = dim_m m * 2 + dim_m m - 2
      in map (\<lambda>j. map (\<lambda>i. d_lam i j) [1..<d]) [1..<d])"

definition generate_Dmu :: "model \<Rightarrow> entry list list" where
  "generate_Dmu m =
     (let d_mu = (\<lambda>i j. let ii = min i j; jj = max i j
                          in if ii = jj then (if ii \<le> dim_m m then Num 2 else Num 1)
                             else Num 0);
          d = dim_m m * 2 + dim_m m - 2
      in map (\<lambda>j. map (\<lambda>i. d_mu i j) [1..<d]) [1..<d])"

text \<open>
  The matrix returned by \<^verbatim>\<open>C_lambda_mu\<close>, with its attributes \<^verbatim>\<open>M.dlam\<close>, \<^verbatim>\<open>M.dmu\<close>,
  \<^verbatim>\<open>M.inv\<close>, and the product \<^verbatim>\<open>M.inv * M\<close>.
\<close>

record stiffness_lam =
  mat_l :: "entry list list"
  dlam :: "entry list list"
  dmu :: "entry list list"
  inv_l :: "entry list list"

definition C_lambda_mu :: "model \<Rightarrow> stiffness_lam" where
  "C_lambda_mu m =
     \<lparr>mat_l = subs (if dim_m m = 3 then C_lambda_mu_subs3D m else C_lambda_mu_subs2D m)
                (matrix_init (dim_m m)),
      dlam = generate_Dlam m,
      dmu = generate_Dmu m,
      inv_l = inverse_C_lam m\<rparr>"

definition inv_times_C_lam :: "model \<Rightarrow> real list list option" where
  "inv_times_C_lam m =
     (let C = C_lambda_mu m
      in case (numeric (inv_l C), numeric (mat_l C)) of
           (Some A, Some B) \<Rightarrow> Some (mat_mul A B)
         | _ \<Rightarrow> None)"

section \<open>geom_utils.py: src_rec and geom_expr\<close>

subsection \<open>Data of the external framework\<close>

text \<open>
  A numeric array is a list of rows (\<^verbatim>\<open>shape[0]\<close> is the number of rows, the time
  samples); coordinates are one row per point. The number of columns is read off the
  first row.
\<close>

type_synonym array = "real list list"

definition n_cols :: "array \<Rightarrow> nat" where
  "n_cols a = (case a of [] \<Rightarrow> 0 | r # _ \<Rightarrow> length r)"

text \<open>
  The sparse point sets. A \<open>point_source\<close> is a \<^verbatim>\<open>PointSource\<close>: its name, its number
  of time samples, its coordinates and its data buffer, of shape (time samples, points).
  A \<open>receiver\<close> is a \<^verbatim>\<open>Receiver\<close>, of which the sources read nothing but its existence.
\<close>

record point_source =
  src_name :: string
  src_ntime :: nat
  src_coordinates :: array
  src_data :: array

record receiver =
  rcv_name :: string
  rcv_ntime :: nat
  rcv_coordinates :: array

text \<open>
  The constructors \<^verbatim>\<open>PointSource(name=..., grid=model.grid, ntime=..., coordinates=...)\<close>
  and \<^verbatim>\<open>Receiver(...)\<close> are outside the given sources. The sparse time functions of the
  external framework, which they build, take the number of time samples from \<^verbatim>\<open>ntime\<close>
  and refuse one that is not a positive integer: a \<open>TypeError\<close> for \<^verbatim>\<open>None\<close>, a
  \<open>ValueError\<close> for zero. The new data buffer holds zeros, one column per row of the
  coordinates.
\<close>

fun sparse_ntime :: "nat option \<Rightarrow> error + nat" where
  "sparse_ntime None = Inl TypeError"
| "sparse_ntime (Some n) = (if n = 0 then Inl ValueError else Inr n)"

definition PointSource_new :: "string \<Rightarrow> nat option \<Rightarrow> array \<Rightarrow> error + point_source" where
  "PointSource_new nm ntime coordinates =
     (case sparse_ntime ntime of
        Inl e \<Rightarrow> Inl e
      | Inr n \<Rightarrow>
          Inr \<lparr>src_name = nm, src_ntime = n, src_coordinates = coordinates,
               src_data = replicate n (replicate (length coordinates) 0)\<rparr>)"

definition Receiver_new :: "string \<Rightarrow> nat option \<Rightarrow> array \<Rightarrow> error + receiver" where
  "Receiver_new nm ntime coordinates =
     (case sparse_ntime ntime of
        Inl e \<Rightarrow> Inl e
      | Inr n \<Rightarrow> Inr \<lparr>rcv_name = nm, rcv_ntime = n, rcv_coordinates = coordinates\<rparr>)"

text \<open>
  \<^verbatim>\<open>src.data[:] = wavelet[:]\<close>: the assignment of the array library. An array of shape
  \<open>(r, c)\<close> is stored into the buffer of shape \<open>(nt, npoint)\<close> when \<open>r\<close> is \<open>nt\<close> or 1 and
  \<open>c\<close> is \<open>npoint\<close> or 1 (a row or a column of length 1 is repeated); any other shape
  is refused with a \<open>ValueError\<close>.
\<close>

definition broadcastable :: "array \<Rightarrow> nat \<Rightarrow> nat \<Rightarrow> bool" where
  "broadcastable a nt npoint =
     ((length a = nt \<or> length a = 1) \<and> (n_cols a = npoint \<or> n_cols a = 1))"

definition broadcast :: "array \<Rightarrow> nat \<Rightarrow> nat \<Rightarrow> array" where
  "broadcast a nt npoint =
     map (\<lambda>i. map (\<lambda>j. a ! (if length a = 1 then 0 else i) ! (if n_cols a = 1 then 0 else j))
                 [0..<npoint])
       [0..<nt]"

definition set_data :: "point_source \<Rightarrow> array \<Rightarrow> error + point_source" where
  "set_data src a =
     (if broadcastable a (src_ntime src) (length (src_coordinates src))
      then Inr (src\<lparr>src_data := broadcast a (src_ntime src) (length (src_coordinates src))\<rparr>)
      else Inl ValueError)"

text \<open>The \<^verbatim>\<open>wavelet\<close> argument: an array, or an object for which
  \<^verbatim>\<open>isinstance(wavelet, PointSource)\<close> holds.\<close>

datatype wavelet = Array array | PointSourceW point_source

fun shape0 :: "wavelet \<Rightarrow> nat" where
  "shape0 (Array a) = length a"
| "shape0 (PointSourceW p) = src_ntime p"

text \<open>
  Field objects: a scalar \<^verbatim>\<open>TimeFunction\<close> with its name, a \<^verbatim>\<open>VectorTimeFunction\<close>
  with its name and the names of its components, a \<^verbatim>\<open>TensorTimeFunction\<close> with its name
  and the names of its components row by row. The wavefield \<^verbatim>\<open>u\<close> is a
  \<^verbatim>\<open>TimeFunction\<close> (given by its name) or a tuple of two field objects: \<^verbatim>\<open>(u, v)\<close> for
  a TTI medium, \<^verbatim>\<open>(v, tau)\<close> for an elastic one.
\<close>

datatype fobj =
    TimeFunction string
  | VectorTimeFunction string "string list"
  | TensorTimeFunction string "string list list"

datatype wavefield = Single string | Pair fobj fobj

fun name_of :: "fobj \<Rightarrow> string" where
  "name_of (TimeFunction n) = n"
| "name_of (VectorTimeFunction n cs) = n"
| "name_of (TensorTimeFunction n rows) = n"

text \<open>
  \<^verbatim>\<open>f[i]\<close> with one integer: the name of a component of a vector or tensor field (the
  flat, row-major index of the computer-algebra matrix; \<open>IndexError\<close> outside it). On a
  scalar field, which is indexed by time and space, one index is a rank mismatch, which
  the computer-algebra library refuses (\<open>IndexException\<close>).
\<close>

fun subscript :: "fobj \<Rightarrow> nat \<Rightarrow> error + string" where
  "subscript (TimeFunction n) i = Inl IndexException"
| "subscript (VectorTimeFunction n cs) i =
     (if i < length cs then Inr (cs ! i) else Inl IndexError)"
| "subscript (TensorTimeFunction n rows) i =
     (if i < length (concat rows) then Inr (concat rows ! i) else Inl IndexError)"

text \<open>\<^verbatim>\<open>as_tuple(u)[0]\<close> and \<^verbatim>\<open>as_tuple(u)[1]\<close>.\<close>

fun as_tuple_0 :: "wavefield \<Rightarrow> fobj" where
  "as_tuple_0 (Single n) = TimeFunction n"
| "as_tuple_0 (Pair a b) = a"

fun as_tuple_1 :: "wavefield \<Rightarrow> error + fobj" where
  "as_tuple_1 (Single n) = Inl IndexError"
| "as_tuple_1 (Pair a b) = Inr b"

text \<open>
  \<^verbatim>\<open>.diagonal()\<close>: the main diagonal of the component matrix (a vector field is a
  column); a scalar field has no such attribute.
\<close>

fun diagonal :: "fobj \<Rightarrow> error + string list" where
  "diagonal (TimeFunction n) = Inl AttributeError"
| "diagonal (VectorTimeFunction n cs) = Inr (take 1 cs)"
| "diagonal (TensorTimeFunction n rows) =
     Inr (map (\<lambda>i. rows ! i ! i)
            (filter (\<lambda>i. i < length (rows ! i)) [0..<length rows]))"

text \<open>
  Symbolic expressions. \<open>DtE\<close> is \<^verbatim>\<open>model.grid.time_dim.spacing\<close>, \<open>ModelM\<close> and
  \<open>ModelIrho\<close> are \<^verbatim>\<open>model.m\<close> and \<^verbatim>\<open>model.irho\<close>, \<open>SrcE\<close> is the source as a
  symbol, \<open>CompE\<close> a component of a vector or tensor field by its name, \<open>TraceE\<close> is
  \<^verbatim>\<open>.trace()\<close> of a tensor field.
\<close>

datatype expr =
    FieldE fobj
  | PairE fobj fobj
  | CompE string
  | ForwardE expr
  | BackwardE expr
  | SrcE point_source
  | DtE
  | ModelM
  | ModelIrho
  | TraceE fobj
  | MulE expr expr
  | DivE expr expr
  | PowE expr nat

text \<open>\<^verbatim>\<open>u[0]\<close> and \<^verbatim>\<open>u\<close> as read-out expressions: the first member of a tuple, and on
  a single \<^verbatim>\<open>TimeFunction\<close> the refused index.\<close>

fun wavefield_0 :: "wavefield \<Rightarrow> error + expr" where
  "wavefield_0 (Single n) = Inl IndexException"
| "wavefield_0 (Pair a b) = Inr (FieldE a)"

fun wavefield_expr :: "wavefield \<Rightarrow> expr" where
  "wavefield_expr (Single n) = FieldE (TimeFunction n)"
| "wavefield_expr (Pair a b) = PairE a b"

text \<open>
  \<^verbatim>\<open>.trace()\<close>: defined on a square component matrix; a scalar field has no such
  attribute, and the computer-algebra library refuses a matrix that is not square.
\<close>

fun trace :: "fobj \<Rightarrow> error + expr" where
  "trace (TimeFunction n) = Inl AttributeError"
| "trace (VectorTimeFunction n cs) =
     (if length cs = 1 then Inr (TraceE (VectorTimeFunction n cs))
      else Inl NonSquareMatrixError)"
| "trace (TensorTimeFunction n rows) =
     (if list_all (\<lambda>r. length r = length rows) rows
      then Inr (TraceE (TensorTimeFunction n rows)) else Inl NonSquareMatrixError)"

text \<open>
  Modelled from the spec: \<^verbatim>\<open>inject\<close> and \<^verbatim>\<open>interpolate\<close> are methods of the sparse
  point sets, which are defined outside the given sources. The specification takes each
  call for one update equation of the ordered equation list (one injection per call of
  \<^verbatim>\<open>inject\<close>, one interpolation per call of \<^verbatim>\<open>interpolate\<close>); \<^verbatim>\<open>+=\<close> appends them.
\<close>

datatype equation = Injection point_source expr expr | Interpolation receiver expr

definition inject :: "point_source \<Rightarrow> expr \<Rightarrow> expr \<Rightarrow> equation list" where
  "inject src field e = [Injection src field e]"

definition interpolate :: "receiver \<Rightarrow> expr \<Rightarrow> equation list" where
  "interpolate rcv e = [Interpolation rcv e]"

subsection \<open>src_rec\<close>

text \<open>
  \<^verbatim>\<open>nt = nt or wavelet.shape[0]\<close>: an absent or zero \<^verbatim>\<open>nt\<close> is falsy, and then the
  attribute \<^verbatim>\<open>shape\<close> of the wavelet is read, which \<^verbatim>\<open>None\<close> does not have.
\<close>

fun wavelet_shape0 :: "wavelet option \<Rightarrow> error + nat" where
  "wavelet_shape0 None = Inl AttributeError"
| "wavelet_shape0 (Some w) = Inr (shape0 w)"

fun resolve_nt :: "nat option \<Rightarrow> wavelet option \<Rightarrow> error + nat" where
  "resolve_nt None wavelet = wavelet_shape0 wavelet"
| "resolve_nt (Some n) wavelet = (if n \<noteq> 0 then Inr n else wavelet_shape0 wavelet)"

text \<open>
  \<^verbatim>\<open>
  if model.is_elastic:
      namef = as_tuple(u)[1][0].name
  else:
      namef = as_tuple(u)[0].name
  \<close>
\<close>

definition namef :: "model \<Rightarrow> wavefield \<Rightarrow> error + string" where
  "namef m u =
     (if is_elastic m then
        (case as_tuple_1 u of
           Inl e \<Rightarrow> Inl e
         | Inr t \<Rightarrow> subscript t 0)
      else Inr (name_of (as_tuple_0 u)))"

text \<open>
  \<^verbatim>\<open>
  src = None
  if src_coords is not None:
      if isinstance(wavelet, PointSource):
          src = wavelet
      else:
          src = PointSource(name="src%s" % namef, grid=model.grid, ntime=nt,
                            coordinates=src_coords)
          src.data[:] = wavelet[:] if wavelet is not None else 0.
  \<close>
  Without a wavelet the buffer is filled with zeros, which it already holds.
\<close>

definition make_src ::
  "string \<Rightarrow> nat \<Rightarrow> array option \<Rightarrow> wavelet option \<Rightarrow> error + point_source option" where
  "make_src nm nt src_coords wavelet =
     (case src_coords of
        None \<Rightarrow> Inr None
      | Some sc \<Rightarrow>
          (case wavelet of
             Some (PointSourceW p) \<Rightarrow> Inr (Some p)
           | Some (Array a) \<Rightarrow>
               (case PointSource_new (''src'' @ nm) (Some nt) sc of
                  Inl e \<Rightarrow> Inl e
                | Inr src \<Rightarrow>
                    (case set_data src a of
                       Inl e \<Rightarrow> Inl e
                     | Inr src' \<Rightarrow> Inr (Some src')))
           | None \<Rightarrow>
               (case PointSource_new (''src'' @ nm) (Some nt) sc of
                  Inl e \<Rightarrow> Inl e
                | Inr src \<Rightarrow> Inr (Some src))))"

text \<open>
  \<^verbatim>\<open>
  rcv = None
  if rec_coords is not None:
      rcv = Receiver(name="rcv%s" % namef, grid=model.grid, ntime=nt,
                     coordinates=rec_coords)
  return src, rcv
  \<close>
\<close>

definition make_rcv :: "string \<Rightarrow> nat \<Rightarrow> array option \<Rightarrow> error + receiver option" where
  "make_rcv nm nt rec_coords =
     (case rec_coords of
        None \<Rightarrow> Inr None
      | Some rc \<Rightarrow>
          (case Receiver_new (''rcv'' @ nm) (Some nt) rc of
             Inl e \<Rightarrow> Inl e
           | Inr rcv \<Rightarrow> Inr (Some rcv)))"

definition src_rec ::
  "model \<Rightarrow> wavefield \<Rightarrow> array option \<Rightarrow> array option \<Rightarrow> wavelet option \<Rightarrow> nat option
   \<Rightarrow> error + (point_source option \<times> receiver option)" where
  "src_rec m u src_coords rec_coords wavelet nt =
     (case resolve_nt nt wavelet of
        Inl e \<Rightarrow> Inl e
      | Inr nt' \<Rightarrow>
          (case namef m u of
             Inl e \<Rightarrow> Inl e
           | Inr nm \<Rightarrow>
               (case make_src nm nt' src_coords wavelet of
                  Inl e \<Rightarrow> Inl e
                | Inr src \<Rightarrow>
                    (case make_rcv nm nt' rec_coords of
                       Inl e \<Rightarrow> Inl e
                     | Inr rcv \<Rightarrow> Inr (src, rcv)))))"

subsection \<open>geom_expr\<close>

text \<open>
  The injection part:
  \<^verbatim>\<open>
  if src is not None:
      if model.is_elastic:
          for ud in as_tuple(u)[1].diagonal():
              geom_expr += src.inject(field=ud.forward, expr=src*dt)
      else:
          u_n = as_tuple(u)[0].forward if fw else as_tuple(u)[0].backward
          geom_expr += src.inject(field=u_n, expr=src*dt**2/m)
  \<close>
  with \<^verbatim>\<open>m = model.m * irho\<close> and \<^verbatim>\<open>dt = model.grid.time_dim.spacing\<close>.
\<close>

definition injection :: "model \<Rightarrow> wavefield \<Rightarrow> bool \<Rightarrow> point_source option \<Rightarrow> error + equation list" where
  "injection m u fw src =
     (case src of
        None \<Rightarrow> Inr []
      | Some s \<Rightarrow>
          if is_elastic m then
            (case as_tuple_1 u of
               Inl e \<Rightarrow> Inl e
             | Inr tau \<Rightarrow>
                 (case diagonal tau of
                    Inl e \<Rightarrow> Inl e
                  | Inr ds \<Rightarrow>
                      Inr (concat (map (\<lambda>ud. inject s (ForwardE (CompE ud)) (MulE (SrcE s) DtE))
                                     ds))))
          else
            (let u_n = (if fw then ForwardE (FieldE (as_tuple_0 u))
                        else BackwardE (FieldE (as_tuple_0 u)))
             in Inr (inject s u_n (DivE (MulE (SrcE s) (PowE DtE 2)) (MulE ModelM ModelIrho)))))"

text \<open>
  The elastic receivers, once \<^verbatim>\<open>recv_coords\<close> is known to be present:
  \<^verbatim>\<open>
  rec_vx = Receiver(name="rec_vx", grid=model.grid, ntime=nt, coordinates=recv_coords)
  rec_vz = Receiver(name="rec_vz", grid=model.grid, ntime=nt, coordinates=recv_coords)
  if model.grid.dim == 3:
      rec_vy = Receiver(name="rec_vy", grid=model.grid, ntime=nt, coordinates=recv_coords)
  v = u[0]
  rec_term_vx = rec_vx.interpolate(expr=v[0])
  rec_term_vz = rec_vz.interpolate(expr=v[1])
  rec_expr = rec_term_vx + rec_term_vz
  if model.grid.dim == 3:
      rec_term_vy = rec_vy.interpolate(expr=v[2])
      rec_expr += rec_term_vy
  tau_expr = u[1].trace()
  rec_term_tau = rcv.interpolate(expr=tau_expr)
  rec_expr += rec_term_tau
  \<close>
  Here \<^verbatim>\<open>nt\<close> is the argument of \<^verbatim>\<open>geom_expr\<close> itself, not the length resolved by
  \<^verbatim>\<open>src_rec\<close>: when it is absent or zero the first \<^verbatim>\<open>Receiver\<close> is refused. The case
  \<open>Single\<close> is not reached: \<^verbatim>\<open>src_rec\<close> has already failed on \<^verbatim>\<open>as_tuple(u)[1]\<close> for an
  elastic model.
\<close>

definition elastic_receivers ::
  "model \<Rightarrow> wavefield \<Rightarrow> nat option \<Rightarrow> array \<Rightarrow> receiver \<Rightarrow> error + equation list" where
  "elastic_receivers m u nt recv_coords rcv =
     (case Receiver_new ''rec_vx'' nt recv_coords of
        Inl e \<Rightarrow> Inl e
      | Inr rec_vx \<Rightarrow>
     (case Receiver_new ''rec_vz'' nt recv_coords of
        Inl e \<Rightarrow> Inl e
      | Inr rec_vz \<Rightarrow>
     (case (if dim_m m = 3 then map_sum id Some (Receiver_new ''rec_vy'' nt recv_coords)
            else Inr None) of
        Inl e \<Rightarrow> Inl e
      | Inr rec_vy \<Rightarrow>
     (case u of
        Single n \<Rightarrow> Inl IndexError
      | Pair v tau \<Rightarrow>
     (case subscript v 0 of
        Inl e \<Rightarrow> Inl e
      | Inr v0 \<Rightarrow>
     (case subscript v 1 of
        Inl e \<Rightarrow> Inl e
      | Inr v1 \<Rightarrow>
     (let rec_terms = interpolate rec_vx (CompE v0) @ interpolate rec_vz (CompE v1)
      in case (case rec_vy of
                 None \<Rightarrow> Inr rec_terms
               | Some rvy \<Rightarrow>
                   (case subscript v 2 of
                      Inl e \<Rightarrow> Inl e
                    | Inr v2 \<Rightarrow> Inr (rec_terms @ interpolate rvy (CompE v2)))) of
           Inl e \<Rightarrow> Inl e
         | Inr rec_terms' \<Rightarrow>
             (case trace tau of
                Inl e \<Rightarrow> Inl e
              | Inr tau_expr \<Rightarrow> Inr (rec_terms' @ interpolate rcv tau_expr)))))))))"

text \<open>
  \<^verbatim>\<open>
  geom_expr = []
  src, rcv = src_rec(model, u, src_coords, rec_coords, wavelet, nt)
  ... injection ...
  if rcv is not None:
      if model.is_elastic:
          if recv_coords is None:
              raise Exception
          ... elastic receivers ...
          geom_expr += rec_expr
          return geom_expr
      else:
          rec_expr = u[0] if model.is_tti else u
      adj_rcv = rcv.interpolate(expr=rec_expr)
      geom_expr += adj_rcv
  return geom_expr
  \<close>
\<close>

definition geom_expr ::
  "model \<Rightarrow> wavefield \<Rightarrow> array option \<Rightarrow> array option \<Rightarrow> wavelet option \<Rightarrow> bool
   \<Rightarrow> nat option \<Rightarrow> array option \<Rightarrow> error + equation list" where
  "geom_expr m u src_coords rec_coords wavelet fw nt recv_coords =
     (case src_rec m u src_coords rec_coords wavelet nt of
        Inl e \<Rightarrow> Inl e
      | Inr (src, rcv) \<Rightarrow>
          (case injection m u fw src of
             Inl e \<Rightarrow> Inl e
           | Inr geom \<Rightarrow>
               (case rcv of
                  None \<Rightarrow> Inr geom
                | Some r \<Rightarrow>
                    if is_elastic m then
                      (case recv_coords of
                         None \<Rightarrow> Inl BareException
                       | Some rvc \<Rightarrow>
                           (case elastic_receivers m u nt rvc r of
                              Inl e \<Rightarrow> Inl e
                            | Inr rec_terms \<Rightarrow> Inr (geom @ rec_terms)))
                    else
                      (case (if is_tti m then wavefield_0 u else Inr (wavefield_expr u)) of
                         Inl e \<Rightarrow> Inl e
                       | Inr rexp \<Rightarrow> Inr (geom @ interpolate r rexp)))))"






section \<open>interface.py: J_adjoint and its three strategies\<close>

subsection \<open>The propagator and checkpointing layers\<close>

text \<open>
  \<^verbatim>\<open>forward\<close> and \<^verbatim>\<open>gradient\<close> (module \<^verbatim>\<open>propagators\<close>), \<^verbatim>\<open>DevitoCheckpoint\<close> and
  \<^verbatim>\<open>CheckpointOperator\<close> (module \<^verbatim>\<open>checkpoint\<close>) and \<^verbatim>\<open>Revolver\<close> are not part of the
  given sources. They are parameters of the model: a record of functions, each taking
  exactly what the call sites pass. The keyword arguments of a call are a record; a
  keyword that a call site does not pass is \<open>None\<close>.
\<close>

record fwd_kwargs =
  fk_save :: "bool option"
  fk_ws :: "array option"
  fk_space_order :: nat
  fk_t_sub :: "nat option"
  fk_freq_list :: "real list option"
  fk_dft_sub :: "nat option"
  fk_return_op :: bool

record grad_kwargs =
  gk_space_order :: nat
  gk_isic :: bool
  gk_freq :: "real list option"
  gk_dft_sub :: "nat option"
  gk_return_op :: bool

text \<open>
  \<^item> \<open>forward\<close>: an executed forward solve, giving \<^verbatim>\<open>rec.data\<close> and the wavefield \<^verbatim>\<open>u\<close>;
  \<^item> \<open>gradient\<close>: an executed gradient, giving \<^verbatim>\<open>g.data\<close>;
  \<^item> \<open>forward_op\<close>, \<open>gradient_op\<close>: the same with \<^verbatim>\<open>return_op=True\<close>, giving the
    unexecuted operator with its fields (\<^verbatim>\<open>(op_f, u, rec_g)\<close> and \<^verbatim>\<open>(op, g, v)\<close>);
  \<^item> \<open>cp_size\<close>: \<^verbatim>\<open>DevitoCheckpoint([uu for uu in as_tuple(u)]).size\<close>, the total element
    count of the saved fields; \<open>itemsize\<close>: \<^verbatim>\<open>u.data.itemsize\<close>, the byte width of an
    element;
  \<^item> \<open>revolve\<close>: \<^verbatim>\<open>g.data\<close> after \<^verbatim>\<open>Revolver(cp, wrap_fw, wrap_rev, n_checkpoints, nt-2)\<close>
    has run \<^verbatim>\<open>apply_forward()\<close> and, with the given \<^verbatim>\<open>rec.data\<close>, \<^verbatim>\<open>apply_reverse()\<close>.
\<close>

record ('u, 'v) externals =
  forward :: "model \<Rightarrow> array \<Rightarrow> array \<Rightarrow> array \<Rightarrow> fwd_kwargs \<Rightarrow> array \<times> 'u"
  gradient :: "model \<Rightarrow> array \<Rightarrow> array \<Rightarrow> 'u \<Rightarrow> grad_kwargs \<Rightarrow> array"
  forward_op :: "model \<Rightarrow> array \<Rightarrow> array \<Rightarrow> array \<Rightarrow> fwd_kwargs \<Rightarrow> 'u"
  gradient_op :: "model \<Rightarrow> array \<Rightarrow> array \<Rightarrow> 'u \<Rightarrow> grad_kwargs \<Rightarrow> 'v"
  cp_size :: "'u \<Rightarrow> nat"
  itemsize :: "'u \<Rightarrow> nat"
  revolve :: "'u \<Rightarrow> 'v \<Rightarrow> int option \<Rightarrow> int \<Rightarrow> array \<Rightarrow> array"

text \<open>Array arithmetic: the elementwise difference, the norm, a buffer of zeros.\<close>

definition array_sub :: "array \<Rightarrow> array \<Rightarrow> array" where
  "array_sub a b = map2 (map2 (-)) a b"

definition norm_a :: "array \<Rightarrow> real" where
  "norm_a a = sqrt (sum_list (map (\<lambda>x. x * x) (concat a)))"

definition zeros :: "nat \<Rightarrow> nat \<Rightarrow> array" where
  "zeros nt npoint = replicate nt (replicate npoint 0)"

text \<open>
  What a strategy returns: \<^verbatim>\<open>g.data\<close>, or with \<^verbatim>\<open>return_obj\<close> the pair of the
  objective and \<^verbatim>\<open>g.data\<close>. Each strategy is modelled as returning the caller's buffer
  \<^verbatim>\<open>recin\<close> as it is after the call, and this result.
\<close>

datatype result = Grad array | ObjGrad real array

subsection \<open>J_adjoint_standard and J_adjoint_freq\<close>

record std_kwargs =
  sk_space_order :: nat
  sk_is_residual :: bool
  sk_return_obj :: bool
  sk_isic :: bool
  sk_ws :: "array option"
  sk_t_sub :: nat

text \<open>
  \<^verbatim>\<open>
  rec, u, _ = forward(model, src_coords, rec_coords, wavelet, save=True, ws=ws,
                      space_order=space_order, t_sub=t_sub)
  if not is_residual:
      recin[:] = rec.data[:] - recin[:]   # input is observed data
  g, _ = gradient(model, recin, rec_coords, u, space_order=space_order, isic=isic)
  if return_obj:
      return .5*model.critical_dt*np.linalg.norm(recin)**2, g.data
  return g.data
  \<close>
\<close>

definition J_adjoint_standard ::
  "('u, 'v) externals \<Rightarrow> model \<Rightarrow> array \<Rightarrow> array \<Rightarrow> array \<Rightarrow> array \<Rightarrow> std_kwargs
   \<Rightarrow> array \<times> result" where
  "J_adjoint_standard ext m src_coords wavelet rec_coords recin kw =
     (let (rec_data, u) =
            forward ext m src_coords rec_coords wavelet
              \<lparr>fk_save = Some True, fk_ws = sk_ws kw, fk_space_order = sk_space_order kw,
               fk_t_sub = Some (sk_t_sub kw), fk_freq_list = None, fk_dft_sub = None,
               fk_return_op = False\<rparr>;
          recin' = (if \<not> sk_is_residual kw then array_sub rec_data recin else recin);
          g = gradient ext m recin' rec_coords u
                \<lparr>gk_space_order = sk_space_order kw, gk_isic = sk_isic kw, gk_freq = None,
                 gk_dft_sub = None, gk_return_op = False\<rparr>
      in (recin',
          if sk_return_obj kw then ObjGrad (0.5 * critical_dt m * (norm_a recin')\<^sup>2) g
          else Grad g))"

record freq_kwargs =
  qk_space_order :: nat
  qk_freq_list :: "real list"
  qk_is_residual :: bool
  qk_return_obj :: bool
  qk_dft_sub :: "nat option"
  qk_isic :: bool
  qk_ws :: "array option"
  qk_t_sub :: nat

text \<open>
  \<^verbatim>\<open>
  rec, u, _ = forward(model, src_coords, rec_coords, wavelet, save=False, ws=ws,
                      space_order=space_order, freq_list=freq_list, dft_sub=dft_sub)
  if not is_residual:
      recin[:] = rec.data[:] - recin[:]   # input is observed data
  g, _ = gradient(model, recin, rec_coords, u, space_order=space_order, isic=isic,
                  freq=freq_list, dft_sub=dft_sub)
  if return_obj:
      return .5*model.critical_dt*np.linalg.norm(recin)**2, g.data
  return g.data
  \<close>
\<close>

definition J_adjoint_freq ::
  "('u, 'v) externals \<Rightarrow> model \<Rightarrow> array \<Rightarrow> array \<Rightarrow> array \<Rightarrow> array \<Rightarrow> freq_kwargs
   \<Rightarrow> array \<times> result" where
  "J_adjoint_freq ext m src_coords wavelet rec_coords recin kw =
     (let (rec_data, u) =
            forward ext m src_coords rec_coords wavelet
              \<lparr>fk_save = Some False, fk_ws = qk_ws kw, fk_space_order = qk_space_order kw,
               fk_t_sub = None, fk_freq_list = Some (qk_freq_list kw),
               fk_dft_sub = qk_dft_sub kw, fk_return_op = False\<rparr>;
          recin' = (if \<not> qk_is_residual kw then array_sub rec_data recin else recin);
          g = gradient ext m recin' rec_coords u
                \<lparr>gk_space_order = qk_space_order kw, gk_isic = qk_isic kw,
                 gk_freq = Some (qk_freq_list kw), gk_dft_sub = qk_dft_sub kw,
                 gk_return_op = False\<rparr>
      in (recin',
          if qk_return_obj kw then ObjGrad (0.5 * critical_dt m * (norm_a recin')\<^sup>2) g
          else Grad g))"

subsection \<open>J_adjoint_checkpointing\<close>

record cp_kwargs =
  ck_space_order :: nat
  ck_is_residual :: bool
  ck_n_checkpoints :: "int option"
  ck_maxmem :: "real option"
  ck_return_obj :: bool
  ck_isic :: bool
  ck_ws :: "array option"
  ck_t_sub :: nat

text \<open>
  \<^verbatim>\<open>
  if maxmem is not None:
      memsize = (cp.size * u.data.itemsize)
      n_checkpoints = int(np.floor(maxmem * 10**6 / memsize))
  \<close>
  Both factors of \<^verbatim>\<open>memsize\<close> are integers, so the division fails when it is zero.
\<close>

definition resolve_n_checkpoints ::
  "('u, 'v) externals \<Rightarrow> 'u \<Rightarrow> int option \<Rightarrow> real option \<Rightarrow> error + int option" where
  "resolve_n_checkpoints ext u n_checkpoints maxmem =
     (case maxmem of
        None \<Rightarrow> Inr n_checkpoints
      | Some mm \<Rightarrow>
          (let memsize = cp_size ext u * itemsize ext u
           in if memsize = 0 then Inl ZeroDivisionError
              else Inr (Some \<lfloor>mm * 10 ^ 6 / real memsize\<rfloor>)))"

text \<open>
  \<^verbatim>\<open>
  op_f, u, rec_g = forward(model, src_coords, rec_coords, wavelet,
                           space_order=space_order, return_op=True, ws=ws)
  op, g, v = gradient(model, recin, rec_coords, u, space_order=space_order,
                      return_op=True, isic=isic)
  nt = wavelet.shape[0]
  rec = Receiver(name='rec', grid=model.grid, ntime=nt, coordinates=rec_coords)
  cp = DevitoCheckpoint([uu for uu in as_tuple(u)])
  ... n_checkpoints from maxmem ...
  wrp = Revolver(cp, wrap_fw, wrap_rev, n_checkpoints, nt-2)
  wrp.apply_forward()
  if is_residual is True:  # input data is already the residual
      rec.data[:] = recin[:]
  else:
      rec.data[:] = rec.data[:] - recin[:]   # input is observed data
  wrp.apply_reverse()
  if return_obj:
      return .5*model.critical_dt*norm(rec)**2, g.data
  return g.data
  \<close>
  The new receiver \<^verbatim>\<open>rec\<close> holds zeros until it is assigned.
\<close>

definition checkpointing_u ::
  "('u, 'v) externals \<Rightarrow> model \<Rightarrow> array \<Rightarrow> array \<Rightarrow> array \<Rightarrow> cp_kwargs \<Rightarrow> 'u" where
  "checkpointing_u ext m src_coords wavelet rec_coords kw =
     forward_op ext m src_coords rec_coords wavelet
       \<lparr>fk_save = None, fk_ws = ck_ws kw, fk_space_order = ck_space_order kw,
        fk_t_sub = None, fk_freq_list = None, fk_dft_sub = None, fk_return_op = True\<rparr>"

definition checkpointing_v ::
  "('u, 'v) externals \<Rightarrow> model \<Rightarrow> array \<Rightarrow> array \<Rightarrow> 'u \<Rightarrow> cp_kwargs \<Rightarrow> 'v" where
  "checkpointing_v ext m recin rec_coords u kw =
     gradient_op ext m recin rec_coords u
       \<lparr>gk_space_order = ck_space_order kw, gk_isic = ck_isic kw, gk_freq = None,
        gk_dft_sub = None, gk_return_op = True\<rparr>"

definition J_adjoint_checkpointing ::
  "('u, 'v) externals \<Rightarrow> model \<Rightarrow> array \<Rightarrow> array \<Rightarrow> array \<Rightarrow> array \<Rightarrow> cp_kwargs
   \<Rightarrow> error + (array \<times> result)" where
  "J_adjoint_checkpointing ext m src_coords wavelet rec_coords recin kw =
     (let u = checkpointing_u ext m src_coords wavelet rec_coords kw;
          v = checkpointing_v ext m recin rec_coords u kw;
          nt = length wavelet;
          rec_data0 = zeros nt (length rec_coords)
      in case resolve_n_checkpoints ext u (ck_n_checkpoints kw) (ck_maxmem kw) of
           Inl e \<Rightarrow> Inl e
         | Inr n_checkpoints \<Rightarrow>
             (let rec_data = (if ck_is_residual kw then recin else array_sub rec_data0 recin);
                  g = revolve ext u v n_checkpoints (int nt - 2) rec_data
              in Inr (recin,
                      if ck_return_obj kw
                      then ObjGrad (0.5 * critical_dt m * (norm_a rec_data)\<^sup>2) g
                      else Grad g)))"

subsection \<open>J_adjoint\<close>

record J_kwargs =
  jk_space_order :: nat
  jk_checkpointing :: bool
  jk_n_checkpoints :: "int option"
  jk_maxmem :: "real option"
  jk_freq_list :: "real list"
  jk_dft_sub :: "nat option"
  jk_isic :: bool
  jk_ws :: "array option"
  jk_t_sub :: nat

text \<open>
  The strategy that \<^verbatim>\<open>J_adjoint\<close> selects, with the keyword arguments it passes (the
  positional arguments are passed on unchanged; \<^verbatim>\<open>return_obj\<close> is not passed and keeps
  its default \<^verbatim>\<open>False\<close>):
  \<^verbatim>\<open>
  if checkpointing:
      grad = J_adjoint_checkpointing(model, src_coords, wavelet, rec_coords,
                                     recin, space_order=8,
                                     n_checkpoints=n_checkpoints, is_residual=True,
                                     maxmem=maxmem, isic=isic, ws=ws, t_sub=t_sub)
  elif len(freq_list) > 0:
      grad = J_adjoint_freq(model, src_coords, wavelet, rec_coords, recin,
                            space_order=space_order, is_residual=True, dft_sub=dft_sub,
                            freq_list=freq_list,
                            isic=isic, ws=ws, t_sub=t_sub)
  else:
      grad = J_adjoint_standard(model, src_coords, wavelet, rec_coords, recin,
                                is_residual=True, isic=isic, ws=ws, t_sub=t_sub,
                                space_order=space_order)
  return grad
  \<close>
\<close>

datatype invocation = Checkpointing cp_kwargs | Frequency freq_kwargs | Standard std_kwargs

definition J_adjoint_select :: "J_kwargs \<Rightarrow> invocation" where
  "J_adjoint_select kw =
     (if jk_checkpointing kw then
        Checkpointing
          \<lparr>ck_space_order = 8, ck_is_residual = True, ck_n_checkpoints = jk_n_checkpoints kw,
           ck_maxmem = jk_maxmem kw, ck_return_obj = False, ck_isic = jk_isic kw,
           ck_ws = jk_ws kw, ck_t_sub = jk_t_sub kw\<rparr>
      else if length (jk_freq_list kw) > 0 then
        Frequency
          \<lparr>qk_space_order = jk_space_order kw, qk_freq_list = jk_freq_list kw,
           qk_is_residual = True, qk_return_obj = False, qk_dft_sub = jk_dft_sub kw,
           qk_isic = jk_isic kw, qk_ws = jk_ws kw, qk_t_sub = jk_t_sub kw\<rparr>
      else
        Standard
          \<lparr>sk_space_order = jk_space_order kw, sk_is_residual = True, sk_return_obj = False,
           sk_isic = jk_isic kw, sk_ws = jk_ws kw, sk_t_sub = jk_t_sub kw\<rparr>)"

fun invoke ::
  "('u, 'v) externals \<Rightarrow> model \<Rightarrow> array \<Rightarrow> array \<Rightarrow> array \<Rightarrow> array \<Rightarrow> invocation
   \<Rightarrow> error + (array \<times> result)" where
  "invoke ext m src_coords wavelet rec_coords recin (Checkpointing kw) =
     J_adjoint_checkpointing ext m src_coords wavelet rec_coords recin kw"
| "invoke ext m src_coords wavelet rec_coords recin (Frequency kw) =
     Inr (J_adjoint_freq ext m src_coords wavelet rec_coords recin kw)"
| "invoke ext m src_coords wavelet rec_coords recin (Standard kw) =
     Inr (J_adjoint_standard ext m src_coords wavelet rec_coords recin kw)"

definition J_adjoint ::
  "('u, 'v) externals \<Rightarrow> model \<Rightarrow> array \<Rightarrow> array \<Rightarrow> array \<Rightarrow> array \<Rightarrow> J_kwargs
   \<Rightarrow> error + (array \<times> result)" where
  "J_adjoint ext m src_coords wavelet rec_coords recin kw =
     invoke ext m src_coords wavelet rec_coords recin (J_adjoint_select kw)"


fun inv_space_order :: "invocation \<Rightarrow> nat" where
  "inv_space_order (Checkpointing kw) = ck_space_order kw"
| "inv_space_order (Frequency kw) = qk_space_order kw"
| "inv_space_order (Standard kw) = sk_space_order kw"

fun is_checkpointing :: "invocation \<Rightarrow> bool" where
  "is_checkpointing (Checkpointing kw) = True"
| "is_checkpointing (Frequency kw) = False"
| "is_checkpointing (Standard kw) = False"

text \<open>
  Stand-ins for the external layers in the concrete evaluations: a forward solve that
  records the constant 5 at every receiver sample, a gradient that returns the residual
  it is given, and a wavefield of \<open>n\<close> elements of 4 bytes.
\<close>

definition example_externals :: "(nat, unit) externals" where
  "example_externals =
     \<lparr>forward = (\<lambda>m sc rc w kw. (map (map (\<lambda>x. 5)) rc, 100)),
      gradient = (\<lambda>m recin rc u kw. recin),
      forward_op = (\<lambda>m sc rc w kw. 100),
      gradient_op = (\<lambda>m recin rc u kw. ()),
      cp_size = (\<lambda>u. u),
      itemsize = (\<lambda>u. 4),
      revolve = (\<lambda>u v n steps rec_data. rec_data)\<rparr>"

definition example_kwargs :: "bool \<Rightarrow> real list \<Rightarrow> J_kwargs" where
  "example_kwargs cp fl =
     \<lparr>jk_space_order = 4, jk_checkpointing = cp, jk_n_checkpoints = None,
      jk_maxmem = Some (1 / 1000), jk_freq_list = fl, jk_dft_sub = None, jk_isic = False,
      jk_ws = None, jk_t_sub = 1\<rparr>"

definition example_cp_kwargs :: cp_kwargs where
  "example_cp_kwargs =
     \<lparr>ck_space_order = 8, ck_is_residual = True, ck_n_checkpoints = None,
      ck_maxmem = Some (1 / 1000), ck_return_obj = False, ck_isic = False, ck_ws = None,
      ck_t_sub = 1\<rparr>"

definition example_std_kwargs :: "bool \<Rightarrow> std_kwargs" where
  "example_std_kwargs res =
     \<lparr>sk_space_order = 8, sk_is_residual = res, sk_return_obj = False, sk_isic = False,
      sk_ws = None, sk_t_sub = 1\<rparr>"

section \<open>utils.py: vec and tensor\<close>

text \<open>
  A tensor-valued field object as \<^verbatim>\<open>vec\<close> and \<^verbatim>\<open>tensor\<close> see it: the flag
  \<^verbatim>\<open>is_TensorValued\<close>, the number of space dimensions
  (\<^verbatim>\<open>len(self.space_dimensions)\<close>) and the matrix of its components, row by row
  (\<^verbatim>\<open>self.shape\<close> is the number of rows and of columns).
\<close>

record 'a tfield =
  is_TensorValued :: bool
  space_dimensions :: nat
  rows :: "'a list list"

definition nrows :: "'a tfield \<Rightarrow> nat" where
  "nrows f = length (rows f)"

definition ncols :: "'a tfield \<Rightarrow> nat" where
  "ncols f = (case rows f of [] \<Rightarrow> 0 | r # _ \<Rightarrow> length r)"

text \<open>
  \<^verbatim>\<open>self[i, j]\<close>, \<^verbatim>\<open>self[k]\<close> (the flat, row-major index) and \<^verbatim>\<open>self[-1]\<close>; \<open>None\<close>
  stands for the \<open>IndexError\<close> outside the matrix.
\<close>

definition get2 :: "'a tfield \<Rightarrow> nat \<times> nat \<Rightarrow> 'a option" where
  "get2 f ij =
     (case ij of (i, j) \<Rightarrow>
        if i < length (rows f) \<and> j < length (rows f ! i) then Some (rows f ! i ! j) else None)"

definition get_flat :: "'a tfield \<Rightarrow> nat \<Rightarrow> 'a option" where
  "get_flat f k = (if k < length (concat (rows f)) then Some (concat (rows f) ! k) else None)"

definition get_last :: "'a tfield \<Rightarrow> 'a option" where
  "get_last f = (if concat (rows f) = [] then None else Some (last (concat (rows f))))"

text \<open>
  Modelled from the spec: \<^verbatim>\<open>tens_func\<close> belongs to the external framework. By the
  specification \<^verbatim>\<open>vec\<close> and \<^verbatim>\<open>tensor\<close> reshape between the square matrix and the
  flattened vector, so \<^verbatim>\<open>tens_func(self)(comp)\<close> is taken to build the tensor-valued
  object whose components are the column \<^verbatim>\<open>comp\<close>, and \<^verbatim>\<open>tens_func(self)._new(M)\<close> the
  one whose components are the matrix \<^verbatim>\<open>M\<close>, on the space dimensions of \<^verbatim>\<open>self\<close>.
\<close>

definition tens_func_call :: "'a tfield \<Rightarrow> 'a list \<Rightarrow> 'a tfield" where
  "tens_func_call f cmps =
     \<lparr>is_TensorValued = True, space_dimensions = space_dimensions f,
      rows = map (\<lambda>c. [c]) cmps\<rparr>"

definition tens_func_new :: "'a tfield \<Rightarrow> 'a list list \<Rightarrow> 'a tfield" where
  "tens_func_new f M =
     \<lparr>is_TensorValued = True, space_dimensions = space_dimensions f, rows = M\<rparr>"

text \<open>
  \<^verbatim>\<open>
  def vec(self):
      if not self.is_TensorValued:
          raise TypeError("The object must be a Tensor object")
      if self.shape[0] != self.shape[1]:
          raise Exception("This object is already represented by its vector form.")
      order = ([(0, 0), (1, 1), (2, 2), (1, 2), (0, 2), (0, 1)]
               if len(self.space_dimensions) == 3 else [(0, 0), (1, 1), (0, 1)])
      comp = [self[o[0], o[1]] for o in order]
      func = tens_func(self)
      return func(comp)
  \<close>
\<close>

definition voigt_order :: "nat \<Rightarrow> (nat \<times> nat) list" where
  "voigt_order sd =
     (if sd = 3 then [(0, 0), (1, 1), (2, 2), (1, 2), (0, 2), (0, 1)]
      else [(0, 0), (1, 1), (0, 1)])"

definition vec :: "'a tfield \<Rightarrow> error + 'a tfield" where
  "vec f =
     (if \<not> is_TensorValued f then Inl TypeError
      else if nrows f \<noteq> ncols f then Inl BareException
      else (case those (map (get2 f) (voigt_order (space_dimensions f))) of
              None \<Rightarrow> Inl IndexError
            | Some cmps \<Rightarrow> Inr (tens_func_call f cmps)))"

text \<open>
  One assignment \<^verbatim>\<open>M[i, j] = value\<close> of \<^verbatim>\<open>tensor\<close>, in a run of assignments that
  stops at the first \<open>IndexError\<close> (of the value read, or of the entry written).
\<close>

definition assign ::
  "nat \<Rightarrow> nat \<Rightarrow> 'a option \<Rightarrow> error + 'a list list \<Rightarrow> error + 'a list list" where
  "assign i j v M =
     (case M of
        Inl e \<Rightarrow> Inl e
      | Inr M' \<Rightarrow>
          (case v of
             None \<Rightarrow> Inl IndexError
           | Some x \<Rightarrow>
               if i < length M' \<and> j < length (M' ! i) then Inr (M'[i := (M' ! i)[j := x]])
               else Inl IndexError))"

text \<open>
  \<^verbatim>\<open>
  def tensor(self):
      if not self.is_TensorValued:
          raise TypeError("The object must be a Tensor object")
      if self.shape[0] == self.shape[1]:
          raise Exception("This object is already represented by its tensor form.")
      ndim = len(self.space_dimensions)
      M = np.zeros((ndim, ndim), dtype=np.dtype(object))
      M[0, 0] = self[0]
      M[1, 1] = self[1]
      if len(self.space_dimensions) == 3:
          M[2, 2] = self[2]
          M[2, 1] = self[3]
          M[1, 2] = self[3]
          M[2, 0] = self[4]
          M[0, 2] = self[4]
      M[1, 0] = self[-1]
      M[0, 1] = self[-1]
      func = tens_func(self)
      return func._new(M)
  \<close>
\<close>

definition tensor :: "('a::zero) tfield \<Rightarrow> error + 'a tfield" where
  "tensor f =
     (if \<not> is_TensorValued f then Inl TypeError
      else if nrows f = ncols f then Inl BareException
      else
        (let ndim = space_dimensions f;
             M0 = Inr (replicate ndim (replicate ndim 0));
             M1 = assign 0 0 (get_flat f 0) M0;
             M2 = assign 1 1 (get_flat f 1) M1;
             M3 = (if space_dimensions f = 3 then
                     assign 0 2 (get_flat f 4)
                       (assign 2 0 (get_flat f 4)
                         (assign 1 2 (get_flat f 3)
                           (assign 2 1 (get_flat f 3)
                             (assign 2 2 (get_flat f 2) M2))))
                   else M2);
             M4 = assign 1 0 (get_last f) M3;
             M5 = assign 0 1 (get_last f) M4
         in case M5 of
              Inl e \<Rightarrow> Inl e
            | Inr M \<Rightarrow> Inr (tens_func_new f M)))"

text \<open>
  The admissible arguments: a symmetric square tensor field on 2 or 3 space dimensions,
  and a flattened vector of 3 components in 2-D, 6 in 3-D.
\<close>

definition symmetric_tensor :: "'a tfield \<Rightarrow> bool" where
  "symmetric_tensor f =
     (is_TensorValued f
      \<and> (space_dimensions f = 2 \<or> space_dimensions f = 3)
      \<and> length (rows f) = space_dimensions f
      \<and> list_all (\<lambda>r. length r = space_dimensions f) (rows f)
      \<and> list_all (\<lambda>i. list_all (\<lambda>j. rows f ! i ! j = rows f ! j ! i)
                        [0..<space_dimensions f]) [0..<space_dimensions f])"

definition voigt_vector :: "'a tfield \<Rightarrow> bool" where
  "voigt_vector f =
     (is_TensorValued f
      \<and> (space_dimensions f = 2 \<or> space_dimensions f = 3)
      \<and> length (rows f) = 3 * space_dimensions f - 3
      \<and> list_all (\<lambda>r. length r = 1) (rows f))"

section \<open>utils.py: weight_fun and weight_srcfocus\<close>

text \<open>
  The weight is a symbolic expression in the grid dimensions. It is modelled as a
  function of their values: \<open>x d\<close> is the grid index along axis \<open>d\<close> (axis \<open>dim - 1\<close> is
  the depth, \<^verbatim>\<open>model.grid.dimensions[-1]\<close>). Floating-point numbers are reals.
\<close>

definition nth_opt :: "'a list \<Rightarrow> nat \<Rightarrow> 'a option" where
  "nth_opt xs i = (if i < length xs then Some (xs ! i) else None)"

text \<open>
  \<^verbatim>\<open>
  isrc = tuple(np.float32(model.padsizes[i][0]) + src_coords[0, i] / model.spacing[i]
               for i in range(model.dim))
  \<close>
  \<open>None\<close> stands for the \<open>IndexError\<close> of a sequence that is too short.
\<close>

definition isrc_at :: "model \<Rightarrow> array \<Rightarrow> nat \<Rightarrow> real option" where
  "isrc_at m src_coords i =
     (case nth_opt (padsizes m) i of
        None \<Rightarrow> None
      | Some p \<Rightarrow>
          (case nth_opt src_coords 0 of
             None \<Rightarrow> None
           | Some row \<Rightarrow>
               (case nth_opt row i of
                  None \<Rightarrow> None
                | Some s \<Rightarrow>
                    (case nth_opt (spacing m) i of
                       None \<Rightarrow> None
                     | Some h \<Rightarrow> Some (fst p + s / h)))))"

definition isrc :: "model \<Rightarrow> array \<Rightarrow> real list option" where
  "isrc m src_coords = those (map (isrc_at m src_coords) [0..<dim_m m])"

text \<open>
  \<^verbatim>\<open>
  def weight_srcfocus(model, src_coords, delta=.01, full=True):
      w_dim = as_tuple(model.grid.dimensions if full else model.grid.dimensions[-1])
      isrc = ...
      h = np.prod(model.spacing)**(1/model.dim)
      radius = sum((d - isrc[i])**2 for i, d in enumerate(w_dim))
      return sqrt(radius + (delta / h)**2) / (delta/h)
  \<close>
  \<^verbatim>\<open>enumerate(w_dim)\<close> pairs the \<open>i\<close>-th dimension of \<^verbatim>\<open>w_dim\<close> with \<^verbatim>\<open>isrc[i]\<close>, which
  is \<open>zip w_dim isrc\<close> since \<^verbatim>\<open>w_dim\<close> is not longer than \<^verbatim>\<open>isrc\<close>. Without a space
  dimension, \<^verbatim>\<open>dimensions[-1]\<close> and \<^verbatim>\<open>1/model.dim\<close> fail.
\<close>

definition weight_srcfocus ::
  "model \<Rightarrow> array \<Rightarrow> real \<Rightarrow> bool \<Rightarrow> (nat \<Rightarrow> real) \<Rightarrow> error + real" where
  "weight_srcfocus m src_coords delta full x =
     (if dim_m m = 0 then (if full then Inl ZeroDivisionError else Inl IndexError)
      else
        (let w_dim = (if full then [0..<dim_m m] else [dim_m m - 1])
         in case isrc m src_coords of
              None \<Rightarrow> Inl IndexError
            | Some src_idx \<Rightarrow>
                (let h = prod_list (spacing m) powr (1 / real (dim_m m));
                     radius = sum_list (map (\<lambda>(d, s). (x d - s)\<^sup>2) (zip w_dim src_idx))
                 in Inr (sqrt (radius + (delta / h)\<^sup>2) / (delta / h)))))"

text \<open>
  \<^verbatim>\<open>
  def weight_fun(w_fun, model, src_coords):
      if w_fun is None:
          return 1
      else:
          return weight_srcfocus(model, src_coords, delta=w_fun[1],
                                 full=(w_fun[0] == "srcfocus"))
  \<close>
\<close>

definition weight_fun ::
  "(string \<times> real) option \<Rightarrow> model \<Rightarrow> array \<Rightarrow> (nat \<Rightarrow> real) \<Rightarrow> error + real" where
  "weight_fun w_fun m src_coords x =
     (case w_fun of
        None \<Rightarrow> Inr 1
      | Some (name, delta) \<Rightarrow> weight_srcfocus m src_coords delta (name = ''srcfocus'') x)"

text \<open>
  The weight as the specification words it: with \<open>x_src\<close> the source coordinate divided
  per axis by the spacing (and moved by the pad, which is the offset of \<open>x\<close>) and \<open>h\<close> the
  geometric mean of the spacings, \<open>sqrt (\<parallel>x - x_src\<parallel>\<^sup>2 + (delta/h)\<^sup>2) / (delta/h)\<close>, the
  distance running over all axes when \<open>full\<close>, over the depth axis only otherwise.
\<close>

definition spec_x_src :: "model \<Rightarrow> array \<Rightarrow> nat \<Rightarrow> real" where
  "spec_x_src m src_coords d = fst (padsizes m ! d) + (src_coords ! 0 ! d) / (spacing m ! d)"

definition spec_weight ::
  "model \<Rightarrow> array \<Rightarrow> real \<Rightarrow> bool \<Rightarrow> (nat \<Rightarrow> real) \<Rightarrow> real" where
  "spec_weight m src_coords delta full x =
     (let axes = (if full then [0..<dim_m m] else [dim_m m - 1]);
          h = prod_list (spacing m) powr (1 / real (dim_m m));
          dist2 = sum_list (map (\<lambda>d. (x d - spec_x_src m src_coords d)\<^sup>2) axes)
      in sqrt (dist2 + (delta / h)\<^sup>2) / (delta / h))"

section \<open>Properties\<close>

text \<open>
  C4. \<^verbatim>\<open>compute_optalpha\<close> returns 1 whenever \<^verbatim>\<open>comp_alpha\<close> is false; when it is
  true it returns 0 if \<open>norm_r \<le> epsilon\<close> or \<open>norm_Fty \<le> 0\<close>, and otherwise
  \<open>norm_r * (norm_r - epsilon) / norm_Fty\<close>; in particular
  \<^verbatim>\<open>compute_optalpha(5, 10, 2, True) == 1.5\<close> and \<^verbatim>\<open>compute_optalpha(1, 10, 2, True) == 0\<close>.
\<close>

lemma matrix_init_2:
  "matrix_init 2 =
     [[Sym 1 1, Sym 1 2, Num 0],
      [Sym 1 2, Sym 2 2, Num 0],
      [Num 0, Num 0, Sym 3 3]]"
  by (simp add: matrix_init_def cij_def Let_def upt_rec)

lemma matrix_init_3:
  "matrix_init 3 =
     [[Sym 1 1, Sym 1 2, Sym 1 3, Num 0, Num 0, Num 0],
      [Sym 1 2, Sym 2 2, Sym 2 3, Num 0, Num 0, Num 0],
      [Sym 1 3, Sym 2 3, Sym 3 3, Num 0, Num 0, Num 0],
      [Num 0, Num 0, Num 0, Sym 4 4, Num 0, Num 0],
      [Num 0, Num 0, Num 0, Num 0, Sym 5 5, Num 0],
      [Num 0, Num 0, Num 0, Num 0, Num 0, Sym 6 6]]"
  by (simp add: matrix_init_def cij_def Let_def upt_rec)

text \<open>
  The sibling parameterization: in 3-D the inverse attached by \<^verbatim>\<open>C_lambda_mu\<close> is the
  inverse, wherever its denominators are not zero.
\<close>

lemma lam_entries:
  fixes lmbda mu :: real
  assumes "mu \<noteq> 0" "3 * lmbda + 2 * mu \<noteq> 0"
  shows "(lmbda + mu) * (lmbda + 2 * mu) / (3 * lmbda * mu + 2 * mu * mu)
           + (- lmbda * lmbda / (6 * lmbda * mu + 4 * mu * mu)
              + - lmbda * lmbda / (6 * lmbda * mu + 4 * mu * mu)) = 1"
    and "(lmbda + mu) * lmbda / (3 * lmbda * mu + 2 * mu * mu)
           + (- lmbda * (lmbda + 2 * mu) / (6 * lmbda * mu + 4 * mu * mu)
              + - lmbda * lmbda / (6 * lmbda * mu + 4 * mu * mu)) = 0"
proof -
  define D where "D = 3 * lmbda * mu + 2 * mu * mu"
  have D: "D = mu * (3 * lmbda + 2 * mu)"
    by (simp add: D_def algebra_simps)
  have D0: "D \<noteq> 0"
    using assms by (simp add: D)
  have D2: "6 * lmbda * mu + 4 * mu * mu = 2 * D"
    by (simp add: D_def)
  have n1: "2 * ((lmbda + mu) * (lmbda + 2 * mu)) - lmbda * lmbda - lmbda * lmbda = 2 * D"
    by (simp add: D_def algebra_simps)
  have n2: "2 * ((lmbda + mu) * lmbda) - lmbda * (lmbda + 2 * mu) - lmbda * lmbda = 0"
    by (simp add: algebra_simps)
  have "(lmbda + mu) * (lmbda + 2 * mu) / D + (- lmbda * lmbda / (2 * D) + - lmbda * lmbda / (2 * D))
          = (2 * ((lmbda + mu) * (lmbda + 2 * mu)) - lmbda * lmbda - lmbda * lmbda) / (2 * D)"
    using D0 by (simp add: divide_simps)
  also have "\<dots> = 1"
    using D0 by (simp add: n1)
  finally show "(lmbda + mu) * (lmbda + 2 * mu) / (3 * lmbda * mu + 2 * mu * mu)
           + (- lmbda * lmbda / (6 * lmbda * mu + 4 * mu * mu)
              + - lmbda * lmbda / (6 * lmbda * mu + 4 * mu * mu)) = 1"
    by (simp only: D2 D_def [symmetric])
  have "(lmbda + mu) * lmbda / D + (- lmbda * (lmbda + 2 * mu) / (2 * D) + - lmbda * lmbda / (2 * D))
          = (2 * ((lmbda + mu) * lmbda) - lmbda * (lmbda + 2 * mu) - lmbda * lmbda) / (2 * D)"
    using D0 by (simp add: divide_simps)
  also have "\<dots> = 0"
    by (simp add: n2)
  finally show "(lmbda + mu) * lmbda / (3 * lmbda * mu + 2 * mu * mu)
           + (- lmbda * (lmbda + 2 * mu) / (6 * lmbda * mu + 4 * mu * mu)
              + - lmbda * lmbda / (6 * lmbda * mu + 4 * mu * mu)) = 0"
    by (simp only: D2 D_def [symmetric])
qed

lemma isotropic_product:
  fixes S11 S12 S44 a b c :: real
  assumes "S11 * a + 2 * (S12 * b) = 1" and "S11 * b + S12 * a + S12 * b = 0" and "S44 * c = 1"
  shows "mat_mul
           [[S11, S12, S12, 0, 0, 0],
            [S12, S11, S12, 0, 0, 0],
            [S12, S12, S11, 0, 0, 0],
            [0, 0, 0, S44, 0, 0],
            [0, 0, 0, 0, S44, 0],
            [0, 0, 0, 0, 0, S44]]
           [[a, b, b, 0, 0, 0],
            [b, a, b, 0, 0, 0],
            [b, b, a, 0, 0, 0],
            [0, 0, 0, c, 0, 0],
            [0, 0, 0, 0, c, 0],
            [0, 0, 0, 0, 0, c]] = identity 6"
proof -
  have 1: "S11 * a + (S12 * b + S12 * b) = 1" "S12 * b + (S11 * a + S12 * b) = 1"
    "S12 * b + (S12 * b + S11 * a) = 1"
    using assms(1) by simp_all
  have 2: "S11 * b + (S12 * a + S12 * b) = 0" "S11 * b + (S12 * b + S12 * a) = 0"
    "S12 * a + (S11 * b + S12 * b) = 0" "S12 * b + (S11 * b + S12 * a) = 0"
    "S12 * a + (S12 * b + S11 * b) = 0" "S12 * b + (S12 * a + S11 * b) = 0"
    using assms(2) by simp_all
  show ?thesis
    by (simp add: mat_mul_def identity_def upt_rec 1 2 assms)
qed

lemma inv_times_C_lam_identity_3D:
  assumes "dim_m m = 3" and "mu m \<noteq> 0" and "3 * lam m + 2 * mu m \<noteq> 0"
  shows "inv_times_C_lam m = Some (identity 6)"
proof -
  define S11 where "S11 = (lam m + mu m) / (3 * lam m * mu m + 2 * mu m * mu m)"
  define S12 where "S12 = - lam m / (6 * lam m * mu m + 4 * mu m * mu m)"
  have A: "numeric (inv_l (C_lambda_mu m)) =
      Some [[S11, S12, S12, 0, 0, 0], [S12, S11, S12, 0, 0, 0], [S12, S12, S11, 0, 0, 0],
            [0, 0, 0, 1 / mu m, 0, 0], [0, 0, 0, 0, 1 / mu m, 0], [0, 0, 0, 0, 0, 1 / mu m]]"
    using assms(1)
    by (simp add: C_lambda_mu_def inverse_C_lam_def subs_def matrix_init_3
        inverse_C_lam_subs3D_def S11_def S12_def Let_def)
  have B: "numeric (mat_l (C_lambda_mu m)) =
      Some [[lam m + 2 * mu m, lam m, lam m, 0, 0, 0], [lam m, lam m + 2 * mu m, lam m, 0, 0, 0],
            [lam m, lam m, lam m + 2 * mu m, 0, 0, 0],
            [0, 0, 0, mu m, 0, 0], [0, 0, 0, 0, mu m, 0], [0, 0, 0, 0, 0, mu m]]"
    using assms(1)
    by (simp add: C_lambda_mu_def subs_def matrix_init_3 C_lambda_mu_subs3D_def Let_def)
  have e1: "S11 * (lam m + 2 * mu m) + 2 * (S12 * lam m) = 1"
    using lam_entries(1) [OF assms(2,3)] by (simp add: S11_def S12_def)
  have e2: "S11 * lam m + S12 * (lam m + 2 * mu m) + S12 * lam m = 0"
    using lam_entries(2) [OF assms(2,3)] by (simp add: S11_def S12_def)
  have e3: "1 / mu m * mu m = 1"
    using assms(2) by simp
  show ?thesis
    unfolding inv_times_C_lam_def Let_def A B
    using isotropic_product [OF e1 e2 e3] by simp
qed

text \<open>
  C1. The claim is that \<^verbatim>\<open>C_Matrix(model, "vp-vs-rho").inv\<close> times
  \<^verbatim>\<open>C_Matrix(model, "vp-vs-rho")\<close> is the identity matrix, in 2-D and in 3-D. The code
  does not compute that: for \<open>vp = 2\<close>, \<open>vs = 1\<close>, \<open>rho = 1\<close> the product has \<open>9/4\<close> on the
  diagonal and \<open>15/8\<close> off the diagonal of the leading block in 3-D, and \<open>15/8\<close> and \<open>3/2\<close>
  in 2-D. The entry \<^verbatim>\<open>C12\<close> of \<^verbatim>\<open>_inverse_C_vp_vs\<close> has the numerator
  \<open>vp\<^sup>2 - vs\<^sup>2\<close> where the inverse has \<open>- (vp\<^sup>2 - 2 vs\<^sup>2)\<close>, and the 2-D dictionary
  reuses the 3-D entries.
\<close>

theorem inv_times_C_vp_vs_rho_not_identity:
  "inv_times_C (example_model 3 True False) =
     Some [[9 / 4, 15 / 8, 15 / 8, 0, 0, 0],
           [15 / 8, 9 / 4, 15 / 8, 0, 0, 0],
           [15 / 8, 15 / 8, 9 / 4, 0, 0, 0],
           [0, 0, 0, 1, 0, 0],
           [0, 0, 0, 0, 1, 0],
           [0, 0, 0, 0, 0, 1]]
   \<and> inv_times_C (example_model 3 True False) \<noteq> Some (identity 6)
   \<and> inv_times_C (example_model 2 True False) =
     Some [[15 / 8, 3 / 2, 0],
           [3 / 2, 15 / 8, 0],
           [0, 0, 1]]
   \<and> inv_times_C (example_model 2 True False) \<noteq> Some (identity 3)"
  by (simp add: inv_times_C_def example_model_def C_vp_vs_rho_def inverse_C_vp_vs_def subs_def
      matrix_init_2 matrix_init_3 C_vp_vs_rho_subs3D_def C_vp_vs_rho_subs2D_def
      inverse_C_vp_vs_subs3D_def inverse_C_vp_vs_subs2D_def mat_mul_def identity_def Let_def
      upt_rec)

theorem compute_optalpha_spec:
  "compute_optalpha norm_r norm_Fty epsilon False = 1
   \<and> compute_optalpha norm_r norm_Fty epsilon True =
       (if norm_r \<le> epsilon \<or> norm_Fty \<le> 0 then 0
        else norm_r * (norm_r - epsilon) / norm_Fty)
   \<and> compute_optalpha 5 10 2 True = 3 / 2
   \<and> compute_optalpha 1 10 2 True = 0"
  by (simp add: compute_optalpha_def not_less)

subsection \<open>src_rec and geom_expr\<close>

text \<open>
  C10. When \<^verbatim>\<open>nt\<close> is absent or zero and no wavelet is given, \<^verbatim>\<open>src_rec\<close> fails on
  \<^verbatim>\<open>wavelet.shape\<close> (an \<open>AttributeError\<close>), whatever the coordinates are, so before any
  point set is allocated, and \<^verbatim>\<open>geom_expr\<close> fails with it; when a wavelet is given, its
  number of samples is the time length.
\<close>

theorem src_rec_needs_time_length:
  "nt = None \<or> nt = Some 0 \<Longrightarrow>
     src_rec m u src_coords rec_coords None nt = Inl AttributeError
     \<and> geom_expr m u src_coords rec_coords None fw nt recv_coords = Inl AttributeError
     \<and> resolve_nt nt (Some w) = Inr (shape0 w)"
  by (auto simp: src_rec_def geom_expr_def)

theorem src_rec_needs_time_length_witness:
  "src_rec (example_model 2 False False) (Single ''u'') (Some [[0, 0]]) (Some [[1, 0]]) None (Some 0)
     = Inl AttributeError
   \<and> geom_expr (example_model 2 False False) (Single ''u'') (Some [[0, 0]]) (Some [[1, 0]]) None True
       (Some 0) None = Inl AttributeError
   \<and> resolve_nt (Some 0) (Some (Array [[1], [2], [3]])) = Inr 3"
  using src_rec_needs_time_length [of "Some 0" "example_model 2 False False" "Single ''u''"
      "Some [[0, 0]]" "Some [[1, 0]]" True None "Array [[1], [2], [3]]"]
  by simp





lemma geom_expr_wavelet_of_wrong_length:
  "geom_expr (example_model 2 False False) (Single ''u'') (Some [[0, 0]]) None
     (Some (Array [[1], [2]])) True (Some 5) None = Inl ValueError"
  by (simp add: geom_expr_def src_rec_def namef_def make_src_def PointSource_new_def set_data_def
      broadcastable_def n_cols_def example_model_def)







subsection \<open>J_adjoint\<close>



text \<open>
  C8. When \<^verbatim>\<open>checkpointing\<close> is true, \<^verbatim>\<open>J_adjoint\<close> is the call of
  \<^verbatim>\<open>J_adjoint_checkpointing\<close> with \<^verbatim>\<open>space_order=8\<close> (and the other arguments of the
  caller), whatever \<^verbatim>\<open>space_order\<close> the caller gave, so its result does not depend on
  it; otherwise it is the call of \<^verbatim>\<open>J_adjoint_freq\<close> (a non-empty frequency list) or of
  \<^verbatim>\<open>J_adjoint_standard\<close> with the \<^verbatim>\<open>space_order\<close> of the caller.
\<close>

theorem J_adjoint_checkpointing_space_order:
  "(jk_checkpointing kw \<longrightarrow>
      J_adjoint ext m src_coords wavelet rec_coords recin kw
        = J_adjoint_checkpointing ext m src_coords wavelet rec_coords recin
            \<lparr>ck_space_order = 8, ck_is_residual = True, ck_n_checkpoints = jk_n_checkpoints kw,
             ck_maxmem = jk_maxmem kw, ck_return_obj = False, ck_isic = jk_isic kw,
             ck_ws = jk_ws kw, ck_t_sub = jk_t_sub kw\<rparr>
      \<and> is_checkpointing (J_adjoint_select kw)
      \<and> inv_space_order (J_adjoint_select kw) = 8
      \<and> J_adjoint ext m src_coords wavelet rec_coords recin kw
          = J_adjoint ext m src_coords wavelet rec_coords recin (kw\<lparr>jk_space_order := so\<rparr>))
   \<and> (\<not> jk_checkpointing kw \<and> jk_freq_list kw \<noteq> [] \<longrightarrow>
      J_adjoint ext m src_coords wavelet rec_coords recin kw
        = Inr (J_adjoint_freq ext m src_coords wavelet rec_coords recin
            \<lparr>qk_space_order = jk_space_order kw, qk_freq_list = jk_freq_list kw,
             qk_is_residual = True, qk_return_obj = False, qk_dft_sub = jk_dft_sub kw,
             qk_isic = jk_isic kw, qk_ws = jk_ws kw, qk_t_sub = jk_t_sub kw\<rparr>))
   \<and> (\<not> jk_checkpointing kw \<and> jk_freq_list kw = [] \<longrightarrow>
      J_adjoint ext m src_coords wavelet rec_coords recin kw
        = Inr (J_adjoint_standard ext m src_coords wavelet rec_coords recin
            \<lparr>sk_space_order = jk_space_order kw, sk_is_residual = True, sk_return_obj = False,
             sk_isic = jk_isic kw, sk_ws = jk_ws kw, sk_t_sub = jk_t_sub kw\<rparr>))
   \<and> (\<not> jk_checkpointing kw \<longrightarrow>
      \<not> is_checkpointing (J_adjoint_select kw)
      \<and> inv_space_order (J_adjoint_select kw) = jk_space_order kw)"
  by (simp add: J_adjoint_select_def J_adjoint_def)

theorem J_adjoint_checkpointing_space_order_witness:
  "jk_space_order (example_kwargs True []) = 4
   \<and> J_adjoint example_externals (example_model 2 False False) [[0, 0]] [[1], [2], [3]] [[9, 0]]
        [[7], [7], [7]] (example_kwargs True [])
      = J_adjoint_checkpointing example_externals (example_model 2 False False) [[0, 0]]
          [[1], [2], [3]] [[9, 0]] [[7], [7], [7]] example_cp_kwargs
   \<and> inv_space_order (J_adjoint_select (example_kwargs True [])) = 8
   \<and> J_adjoint example_externals (example_model 2 False False) [[0, 0]] [[1], [2], [3]] [[9, 0]]
        [[7], [7], [7]] (example_kwargs True [])
      = J_adjoint example_externals (example_model 2 False False) [[0, 0]] [[1], [2], [3]] [[9, 0]]
        [[7], [7], [7]] ((example_kwargs True [])\<lparr>jk_space_order := 16\<rparr>)
   \<and> J_adjoint example_externals (example_model 2 False False) [[0, 0]] [[1], [2], [3]] [[9, 0]]
        [[7], [7], [7]] (example_kwargs False [])
      = Inr (J_adjoint_standard example_externals (example_model 2 False False) [[0, 0]]
          [[1], [2], [3]] [[9, 0]] [[7], [7], [7]] ((example_std_kwargs True)\<lparr>sk_space_order := 4\<rparr>))
   \<and> inv_space_order (J_adjoint_select (example_kwargs False [])) = 4"
proof -
  have a: "jk_checkpointing (example_kwargs True [])"
    and b: "\<not> jk_checkpointing (example_kwargs False []) \<and> jk_freq_list (example_kwargs False []) = []"
    and b': "\<not> jk_checkpointing (example_kwargs False [])"
    and c: "jk_space_order (example_kwargs cp fl) = 4" for cp fl
    by (simp_all add: example_kwargs_def)
  have r1: "\<lparr>ck_space_order = 8, ck_is_residual = True,
             ck_n_checkpoints = jk_n_checkpoints (example_kwargs True []),
             ck_maxmem = jk_maxmem (example_kwargs True []), ck_return_obj = False,
             ck_isic = jk_isic (example_kwargs True []), ck_ws = jk_ws (example_kwargs True []),
             ck_t_sub = jk_t_sub (example_kwargs True [])\<rparr> = example_cp_kwargs"
    by (simp add: example_kwargs_def example_cp_kwargs_def)
  have r2: "\<lparr>sk_space_order = jk_space_order (example_kwargs False []), sk_is_residual = True,
             sk_return_obj = False, sk_isic = jk_isic (example_kwargs False []),
             sk_ws = jk_ws (example_kwargs False []), sk_t_sub = jk_t_sub (example_kwargs False [])\<rparr>
            = (example_std_kwargs True)\<lparr>sk_space_order := 4\<rparr>"
    by (simp add: example_kwargs_def example_std_kwargs_def)
  note T = J_adjoint_checkpointing_space_order [of "example_kwargs True []" example_externals
        "example_model 2 False False" "[[0, 0]]" "[[1], [2], [3]]" "[[9, 0]]" "[[7], [7], [7]]" 16]
  note F = J_adjoint_checkpointing_space_order [of "example_kwargs False []" example_externals
        "example_model 2 False False" "[[0, 0]]" "[[1], [2], [3]]" "[[9, 0]]" "[[7], [7], [7]]" 16]
  from T a have 1: "J_adjoint example_externals (example_model 2 False False) [[0, 0]]
        [[1], [2], [3]] [[9, 0]] [[7], [7], [7]] (example_kwargs True [])
      = J_adjoint_checkpointing example_externals (example_model 2 False False) [[0, 0]]
          [[1], [2], [3]] [[9, 0]] [[7], [7], [7]] example_cp_kwargs"
    and 2: "inv_space_order (J_adjoint_select (example_kwargs True [])) = 8"
    and 3: "J_adjoint example_externals (example_model 2 False False) [[0, 0]] [[1], [2], [3]]
        [[9, 0]] [[7], [7], [7]] (example_kwargs True [])
      = J_adjoint example_externals (example_model 2 False False) [[0, 0]] [[1], [2], [3]] [[9, 0]]
        [[7], [7], [7]] ((example_kwargs True [])\<lparr>jk_space_order := 16\<rparr>)"
    unfolding r1 by blast+
  from F b b' have 4: "J_adjoint example_externals (example_model 2 False False) [[0, 0]]
        [[1], [2], [3]] [[9, 0]] [[7], [7], [7]] (example_kwargs False [])
      = Inr (J_adjoint_standard example_externals (example_model 2 False False) [[0, 0]]
          [[1], [2], [3]] [[9, 0]] [[7], [7], [7]] ((example_std_kwargs True)\<lparr>sk_space_order := 4\<rparr>))"
    and 5: "inv_space_order (J_adjoint_select (example_kwargs False []))
              = jk_space_order (example_kwargs False [])"
    unfolding r2 by blast+
  from c [of True "[]"] 1 2 3 4 5 [unfolded c] show ?thesis
    by blast
qed



subsection \<open>vec and tensor\<close>

lemma length_1_conv: "length xs = Suc 0 \<longleftrightarrow> (\<exists>a. xs = [a])"
  by (cases xs) auto

lemma length_2_conv: "length xs = 2 \<longleftrightarrow> (\<exists>a b. xs = [a, b])"
  by (auto simp: length_Suc_conv eval_nat_numeral)

lemma length_3_conv: "length xs = 3 \<longleftrightarrow> (\<exists>a b c. xs = [a, b, c])"
  by (auto simp: length_Suc_conv eval_nat_numeral)

lemma length_6_conv: "length xs = 6 \<longleftrightarrow> (\<exists>a b c d e f. xs = [a, b, c, d, e, f])"
  by (auto simp: length_Suc_conv eval_nat_numeral)

lemma upt_2: "[0..<2] = [0, 1]"
  by (simp add: upt_rec)

lemma upt_3: "[0..<3] = [0, 1, 2]"
  by (simp add: upt_rec)

lemmas reshape_defs =
  vec_def tensor_def nrows_def ncols_def voigt_order_def get2_def tens_func_call_def
  tens_func_new_def get_flat_def get_last_def assign_def Let_def

lemma tensor_vec_symmetric:
  assumes "symmetric_tensor (M :: ('a::zero) tfield)"
  shows "\<exists>v. vec M = Inr v \<and> tensor v = Inr M
            \<and> rows v = map (\<lambda>(i, j). [rows M ! i ! j]) (voigt_order (space_dimensions M))"
proof -
  from assms have tv: "is_TensorValued M"
    and sd: "space_dimensions M = 2 \<or> space_dimensions M = 3"
    by (simp_all add: symmetric_tensor_def)
  from sd show ?thesis
  proof
    assume d: "space_dimensions M = 2"
    with assms obtain a b c where r: "rows M = [[a, b], [b, c]]"
      by (auto simp: symmetric_tensor_def length_2_conv upt_2)
    have M: "M = \<lparr>is_TensorValued = True, space_dimensions = 2, rows = [[a, b], [b, c]]\<rparr>"
      using tv d r by (cases M) simp
    show ?thesis
      unfolding M by (simp add: reshape_defs eval_nat_numeral)
  next
    assume d: "space_dimensions M = 3"
    with assms obtain a b c d' e f where r: "rows M = [[a, b, c], [b, d', e], [c, e, f]]"
      by (auto simp: symmetric_tensor_def length_3_conv upt_3)
    have M: "M = \<lparr>is_TensorValued = True, space_dimensions = 3,
                  rows = [[a, b, c], [b, d', e], [c, e, f]]\<rparr>"
      using tv d r by (cases M) simp
    show ?thesis
      unfolding M by (simp add: reshape_defs eval_nat_numeral)
  qed
qed

lemma vec_tensor_voigt:
  assumes "voigt_vector (v :: ('a::zero) tfield)"
  shows "\<exists>M. tensor v = Inr M \<and> vec M = Inr v"
proof -
  from assms have tv: "is_TensorValued v"
    and sd: "space_dimensions v = 2 \<or> space_dimensions v = 3"
    by (simp_all add: voigt_vector_def)
  from sd show ?thesis
  proof
    assume d: "space_dimensions v = 2"
    with assms obtain a b c where r: "rows v = [[a], [b], [c]]"
      by (auto simp: voigt_vector_def length_3_conv length_1_conv)
    have v: "v = \<lparr>is_TensorValued = True, space_dimensions = 2, rows = [[a], [b], [c]]\<rparr>"
      using tv d r by (cases v) simp
    show ?thesis
      unfolding v by (simp add: reshape_defs eval_nat_numeral)
  next
    assume d: "space_dimensions v = 3"
    with assms obtain a b c d' e f where r: "rows v = [[a], [b], [c], [d'], [e], [f]]"
      by (auto simp: voigt_vector_def length_6_conv length_1_conv)
    have v: "v = \<lparr>is_TensorValued = True, space_dimensions = 3,
                  rows = [[a], [b], [c], [d'], [e], [f]]\<rparr>"
      using tv d r by (cases v) simp
    show ?thesis
      unfolding v by (simp add: reshape_defs eval_nat_numeral)
  qed
qed

lemma symmetric_tensor_square: "symmetric_tensor M \<Longrightarrow> is_TensorValued M \<and> nrows M = ncols M"
  by (auto simp: symmetric_tensor_def nrows_def ncols_def split: list.splits)

lemma voigt_vector_not_square: "voigt_vector v \<Longrightarrow> is_TensorValued v \<and> nrows v \<noteq> ncols v"
  by (auto simp: voigt_vector_def nrows_def ncols_def split: list.splits)

text \<open>
  C6. \<^verbatim>\<open>vec\<close> and \<^verbatim>\<open>tensor\<close> are mutually inverse on admissible arguments: for a
  symmetric square tensor field \<open>M\<close> on 2 or 3 space dimensions, \<^verbatim>\<open>vec(M)\<close> succeeds, lists
  the components in the order \<open>(0,0), (1,1), (2,2), (1,2), (0,2), (0,1)\<close> in 3-D and
  \<open>(0,0), (1,1), (0,1)\<close> in 2-D, and \<^verbatim>\<open>tensor(vec(M))\<close> is \<open>M\<close>; for a flattened vector \<open>v\<close>
  of 3 components in 2-D, 6 in 3-D, \<^verbatim>\<open>vec(tensor(v))\<close> is \<open>v\<close>; and \<^verbatim>\<open>vec\<close> raises its
  exception on a tensor-valued argument that is not square (already a vector), \<^verbatim>\<open>tensor\<close>
  on one that is square (already a tensor).
\<close>

theorem vec_tensor_mutually_inverse:
  fixes M v f :: "('a::zero) tfield"
  shows "(symmetric_tensor M \<longrightarrow>
            (\<exists>w. vec M = Inr w \<and> tensor w = Inr M
                \<and> rows w = map (\<lambda>(i, j). [rows M ! i ! j]) (voigt_order (space_dimensions M)))
            \<and> tensor M = Inl BareException)
       \<and> (voigt_vector v \<longrightarrow>
            (\<exists>N. tensor v = Inr N \<and> vec N = Inr v) \<and> vec v = Inl BareException)
       \<and> voigt_order 3 = [(0, 0), (1, 1), (2, 2), (1, 2), (0, 2), (0, 1)]
       \<and> voigt_order 2 = [(0, 0), (1, 1), (0, 1)]
       \<and> (is_TensorValued f \<and> nrows f \<noteq> ncols f \<longrightarrow> vec f = Inl BareException)
       \<and> (is_TensorValued f \<and> nrows f = ncols f \<longrightarrow> tensor f = Inl BareException)"
proof (intro conjI impI)
  assume s: "symmetric_tensor M"
  show "\<exists>w. vec M = Inr w \<and> tensor w = Inr M
            \<and> rows w = map (\<lambda>(i, j). [rows M ! i ! j]) (voigt_order (space_dimensions M))"
    using s by (rule tensor_vec_symmetric)
  show "tensor M = Inl BareException"
    using symmetric_tensor_square [OF s] by (simp add: tensor_def)
next
  assume s: "voigt_vector v"
  show "\<exists>N. tensor v = Inr N \<and> vec N = Inr v"
    using s by (rule vec_tensor_voigt)
  show "vec v = Inl BareException"
    using voigt_vector_not_square [OF s] by (simp add: vec_def)
next
  show "voigt_order 3 = [(0, 0), (1, 1), (2, 2), (1, 2), (0, 2), (0, 1)]"
    by (simp add: voigt_order_def)
  show "voigt_order 2 = [(0, 0), (1, 1), (0, 1)]"
    by (simp add: voigt_order_def)
next
  assume "is_TensorValued f \<and> nrows f \<noteq> ncols f"
  then show "vec f = Inl BareException"
    by (simp add: vec_def)
next
  assume "is_TensorValued f \<and> nrows f = ncols f"
  then show "tensor f = Inl BareException"
    by (simp add: tensor_def)
qed

theorem vec_tensor_mutually_inverse_witness:
  "vec \<lparr>is_TensorValued = True, space_dimensions = 2, rows = [[1, 2], [2, 3 :: real]]\<rparr>
     = Inr \<lparr>is_TensorValued = True, space_dimensions = 2, rows = [[1], [3], [2]]\<rparr>
   \<and> tensor \<lparr>is_TensorValued = True, space_dimensions = 2, rows = [[1], [3], [2 :: real]]\<rparr>
     = Inr \<lparr>is_TensorValued = True, space_dimensions = 2, rows = [[1, 2], [2, 3]]\<rparr>
   \<and> tensor \<lparr>is_TensorValued = True, space_dimensions = 2, rows = [[1, 2], [2, 3 :: real]]\<rparr>
     = Inl BareException
   \<and> (\<exists>N. tensor \<lparr>is_TensorValued = True, space_dimensions = 3,
                   rows = [[1], [2], [3], [4], [5], [6 :: real]]\<rparr> = Inr N
          \<and> vec N = Inr \<lparr>is_TensorValued = True, space_dimensions = 3,
                          rows = [[1], [2], [3], [4], [5], [6]]\<rparr>)
   \<and> vec \<lparr>is_TensorValued = True, space_dimensions = 3,
          rows = [[1], [2], [3], [4], [5], [6 :: real]]\<rparr> = Inl BareException"
proof -
  let ?M = "\<lparr>is_TensorValued = True, space_dimensions = 2, rows = [[1, 2], [2, 3 :: real]]\<rparr>"
  let ?v = "\<lparr>is_TensorValued = True, space_dimensions = 3,
             rows = [[1], [2], [3], [4], [5], [6 :: real]]\<rparr>"
  have M: "symmetric_tensor ?M"
    by (simp add: symmetric_tensor_def upt_2)
  have v: "voigt_vector ?v"
    by (simp add: voigt_vector_def)
  have ev: "vec ?M = Inr \<lparr>is_TensorValued = True, space_dimensions = 2, rows = [[1], [3], [2]]\<rparr>"
    by (simp add: reshape_defs)
  from vec_tensor_mutually_inverse [of ?M ?v ?M] M v
  have 1: "\<exists>w. vec ?M = Inr w \<and> tensor w = Inr ?M"
    and 2: "tensor ?M = Inl BareException"
    and 3: "\<exists>N. tensor ?v = Inr N \<and> vec N = Inr ?v"
    and 4: "vec ?v = Inl BareException"
    by blast+
  from 1 ev have 5: "tensor \<lparr>is_TensorValued = True, space_dimensions = 2,
                             rows = [[1], [3], [2 :: real]]\<rparr> = Inr ?M"
    by auto
  from ev 5 2 3 4 show ?thesis
    by blast
qed

subsection \<open>weight_fun\<close>

lemma those_eq_Some: "those xs = Some ys \<longleftrightarrow> xs = map Some ys"
  by (induction xs arbitrary: ys) (auto split: option.splits)

lemma isrc_SomeD:
  assumes "isrc m src_coords = Some ys"
  shows "length ys = dim_m m"
    and "i < dim_m m \<Longrightarrow> ys ! i = spec_x_src m src_coords i"
proof -
  from assms have eq: "map (isrc_at m src_coords) [0..<dim_m m] = map Some ys"
    by (simp add: isrc_def those_eq_Some)
  then have "length (map (isrc_at m src_coords) [0..<dim_m m]) = length (map Some ys)"
    by simp
  then show len: "length ys = dim_m m"
    by simp
  assume i: "i < dim_m m"
  from eq have "map (isrc_at m src_coords) [0..<dim_m m] ! i = map Some ys ! i"
    by simp
  with i len have "isrc_at m src_coords i = Some (ys ! i)"
    by simp
  then show "ys ! i = spec_x_src m src_coords i"
    by (auto simp: isrc_at_def nth_opt_def spec_x_src_def split: option.splits if_splits)
qed

text \<open>Without a descriptor the weight is the constant 1.\<close>

lemma weight_fun_absent: "weight_fun None m src_coords x = Inr 1"
  by (simp add: weight_fun_def)

text \<open>With the name \<^verbatim>\<open>"srcfocus"\<close> the code computes the weight of the specification.\<close>

lemma weight_fun_srcfocus_agrees:
  assumes "dim_m m \<noteq> 0" and "isrc m src_coords = Some ys"
  shows "weight_fun (Some (''srcfocus'', delta)) m src_coords x
           = Inr (spec_weight m src_coords delta True x)"
proof -
  have len: "length ys = dim_m m"
    and nth: "\<And>i. i < dim_m m \<Longrightarrow> ys ! i = spec_x_src m src_coords i"
    using isrc_SomeD [OF assms(2)] by simp_all
  have "map (\<lambda>(d, s). (x d - s)\<^sup>2) (zip [0..<dim_m m] ys)
          = map (\<lambda>d. (x d - spec_x_src m src_coords d)\<^sup>2) [0..<dim_m m]"
    by (rule nth_equalityI) (simp_all add: len nth)
  then show ?thesis
    using assms by (simp add: weight_fun_def weight_srcfocus_def spec_weight_def Let_def)
qed

text \<open>
  With any other name the code takes the distance between the depth index and the
  coordinate of the source along the first axis.
\<close>

lemma weight_fun_depth_only:
  assumes "dim_m m \<noteq> 0" and "isrc m src_coords = Some ys" and "name \<noteq> ''srcfocus''"
  shows "weight_fun (Some (name, delta)) m src_coords x
           = Inr (let h = prod_list (spacing m) powr (1 / real (dim_m m))
                  in sqrt ((x (dim_m m - 1) - spec_x_src m src_coords 0)\<^sup>2 + (delta / h)\<^sup>2)
                       / (delta / h))"
proof -
  have len: "length ys = dim_m m" and nth: "ys ! 0 = spec_x_src m src_coords 0"
    using isrc_SomeD [OF assms(2)] assms(1) by simp_all
  from len assms(1) obtain y ys' where ys: "ys = y # ys'"
    by (cases ys) auto
  show ?thesis
    using assms nth by (simp add: weight_fun_def weight_srcfocus_def Let_def ys)
qed

lemma sqrt_25: "sqrt 25 = 5"
  by (rule real_sqrt_unique) simp_all

lemma sqrt_9: "sqrt 9 = 3"
  by (rule real_sqrt_unique) simp_all

lemma example_isrc: "isrc (example_model 2 False False) [[6, 2]] = Some [6, 2]"
  by (simp add: isrc_def isrc_at_def nth_opt_def example_model_def upt_rec)

text \<open>
  C7. The claim is that with a name other than \<^verbatim>\<open>"srcfocus"\<close> the distance of the weight
  runs over the depth axis only. In 2-D, with unit spacing, no pad, the source at
  \<open>(6, 2)\<close> and \<open>delta = 3\<close>, the grid point \<open>(0, 2)\<close> is at the depth of the source, so the
  weight of the specification is \<open>sqrt (0 + 9) / 3 = 1\<close>; the code returns
  \<open>sqrt ((2 - 6)\<^sup>2 + 9) / 3 = 5/3\<close>, the depth index being compared with the first
  coordinate of the source (\<^verbatim>\<open>isrc[i] for i, d in enumerate(w_dim)\<close> with
  \<^verbatim>\<open>w_dim = (depth,)\<close> reads \<^verbatim>\<open>isrc[0]\<close>).
\<close>

theorem weight_fun_depth_uses_first_source_coordinate:
  "weight_fun (Some (''depth'', 3)) (example_model 2 False False) [[6, 2]]
       (\<lambda>d. if d = 0 then 0 else 2) = Inr (5 / 3)
   \<and> spec_weight (example_model 2 False False) [[6, 2]] 3 False (\<lambda>d. if d = 0 then 0 else 2) = 1"
proof -
  have m: "dim_m (example_model 2 False False) = 2"
    "spacing (example_model 2 False False) = [1, 1]"
    "padsizes (example_model 2 False False) = [(0, 0), (0, 0)]"
    by (simp_all add: example_model_def eval_nat_numeral)
  show ?thesis
    by (simp add: weight_fun_def weight_srcfocus_def spec_weight_def spec_x_src_def example_isrc
        Let_def sqrt_25 sqrt_9 m)
qed

end
